theory Spec2Isabelle
  imports Complex_Main
begin

section \<open>JavaScript values\<close>

text \<open>
  The scripts are JavaScript; the values that flow through the code under study are
  \<^verbatim>\<open>undefined\<close>, \<^verbatim>\<open>null\<close>, booleans, numbers and strings. A number is a finite
  value, \<^verbatim>\<open>NaN\<close> or one of the infinities. Strings are lists of characters, a character
  standing for one code unit of the JavaScript string; every test the code makes on a
  character (the escaping, trimming) looks at one code unit at a time.
\<close>

datatype jsnum = Finite rat | NaN | PosInfinity | NegInfinity

datatype jsval = JUndefined | JNull | JBool bool | JNum jsnum | JStr string

text \<open>Truthiness, as \<^verbatim>\<open>if (v)\<close>, \<^verbatim>\<open>a || b\<close> and \<^verbatim>\<open>!v\<close> test it.\<close>

fun truthy :: "jsval \<Rightarrow> bool" where
  "truthy JUndefined = False"
| "truthy JNull = False"
| "truthy (JBool b) = b"
| "truthy (JNum n) = (n \<noteq> NaN \<and> n \<noteq> Finite 0)"
| "truthy (JStr s) = (s \<noteq> [])"

text \<open>\<^verbatim>\<open>a || b\<close>: the first operand when it is truthy, else the second.\<close>

definition js_or :: "jsval \<Rightarrow> jsval \<Rightarrow> jsval" where
  "js_or a b = (if truthy a then a else b)"

text \<open>\<^verbatim>\<open>a ?? b\<close>: the first operand unless it is \<^verbatim>\<open>null\<close> or \<^verbatim>\<open>undefined\<close>.\<close>

fun nullish :: "jsval \<Rightarrow> bool" where
  "nullish JUndefined = True"
| "nullish JNull = True"
| "nullish _ = False"

definition js_coalesce :: "jsval \<Rightarrow> jsval \<Rightarrow> jsval" where
  "js_coalesce a b = (if nullish a then b else a)"

text \<open>\<^verbatim>\<open>Number.isFinite(v)\<close>: true for finite numbers only; it never coerces.\<close>

fun isFinite :: "jsval \<Rightarrow> bool" where
  "isFinite (JNum (Finite r)) = True"
| "isFinite _ = False"

text \<open>
  Two conversions belong to the language runtime and not to the repository: \<^verbatim>\<open>Number(s)\<close>
  on a string and the text of a number inside a template literal. They are taken as
  parameters.
\<close>

record runtime =
  StringToNumber :: "string \<Rightarrow> jsnum"
  NumberToString :: "jsnum \<Rightarrow> string"

text \<open>The text of a value inside a template literal \<^verbatim>\<open>`${v}`\<close>.\<close>

fun toString :: "runtime \<Rightarrow> jsval \<Rightarrow> string" where
  "toString rt JUndefined = ''undefined''"
| "toString rt JNull = ''null''"
| "toString rt (JBool b) = (if b then ''true'' else ''false'')"
| "toString rt (JNum n) = NumberToString rt n"
| "toString rt (JStr s) = s"

section \<open>config.js: the connection resolver\<close>

definition DEFAULT_PORT :: jsval where
  "DEFAULT_PORT = JNum (Finite 9222)"

text \<open>
  \<^verbatim>\<open>
  export function normalizeNumber(value, fallback) {
      const number = typeof value === "string" ? Number(value) : value;
      return Number.isFinite(number) ? number : fallback;
  }
  \<close>
\<close>

definition normalizeNumber :: "runtime \<Rightarrow> jsval \<Rightarrow> jsval \<Rightarrow> jsval" where
  "normalizeNumber rt value fallback =
     (let number = (case value of JStr s \<Rightarrow> JNum (StringToNumber rt s) | _ \<Rightarrow> value)
      in if isFinite number then number else fallback)"

text \<open>
  The flags object handed to \<^verbatim>\<open>resolveBrowserConnection\<close>; a property that is not set
  reads as \<^verbatim>\<open>undefined\<close>. The process environment maps names to strings.
\<close>

record flags =
  ws :: jsval
  host :: jsval
  port :: jsval

type_synonym environment = "string \<rightharpoonup> string"

definition getenv :: "environment \<Rightarrow> string \<Rightarrow> jsval" where
  "getenv env name = (case env name of None \<Rightarrow> JUndefined | Some s \<Rightarrow> JStr s)"

text \<open>
  The two shapes of the returned object (both carry \<^verbatim>\<open>defaultViewport: null\<close>, which is
  constant and left out).
\<close>

datatype connection = BrowserWSEndpoint jsval | BrowserURL string

text \<open>
  \<^verbatim>\<open>
  export function resolveBrowserConnection(flags = {}) {
      if (flags.ws || process.env.BROWSER_WS_URL) {
          const endpoint = flags.ws ?? process.env.BROWSER_WS_URL;
          return { browserWSEndpoint: endpoint, defaultViewport: null };
      }
      const host = flags.host ?? process.env.BROWSER_HOST ?? "localhost";
      const port = normalizeNumber(flags.port ?? process.env.BROWSER_PORT ?? DEFAULT_PORT, DEFAULT_PORT);
      return { browserURL: `http://${host}:${port}`, defaultViewport: null };
  }
  \<close>
\<close>

definition resolveBrowserConnection :: "runtime \<Rightarrow> environment \<Rightarrow> flags \<Rightarrow> connection" where
  "resolveBrowserConnection rt env fl =
     (if truthy (js_or (ws fl) (getenv env ''BROWSER_WS_URL''))
      then (let endpoint = js_coalesce (ws fl) (getenv env ''BROWSER_WS_URL'')
            in BrowserWSEndpoint endpoint)
      else (let host = js_coalesce (host fl) (js_coalesce (getenv env ''BROWSER_HOST'') (JStr ''localhost''));
                port = normalizeNumber rt
                         (js_coalesce (port fl) (js_coalesce (getenv env ''BROWSER_PORT'') DEFAULT_PORT))
                         DEFAULT_PORT
            in BrowserURL (''http://'' @ toString rt host @ '':'' @ toString rt port)))"

section \<open>The document\<close>

text \<open>
  The page's document is a tree of element nodes and text nodes. An element carries what
  the scripts read from it: \<^verbatim>\<open>nodeName\<close>, \<^verbatim>\<open>id\<close> (the empty string when there is none),
  \<^verbatim>\<open>classList\<close>, its attributes, \<^verbatim>\<open>innerText\<close> (undefined on elements that are not HTML
  elements), whether it has an \<^verbatim>\<open>offsetParent\<close>, and whether it is an \<^verbatim>\<open>HTMLElement\<close>.
\<close>

record elem =
  nodeName :: string
  el_id :: string
  classList :: "string list"
  attributes :: "(string \<times> string) list"
  innerText :: "string option"
  offsetParent :: bool
  isHTMLElement :: bool

datatype dom = TextNode string | Element elem "dom list"

fun isElement :: "dom \<Rightarrow> bool" where
  "isElement (Element e cs) = True"
| "isElement (TextNode t) = False"

text \<open>\<^verbatim>\<open>node.children\<close>: the child nodes that are elements, in order.\<close>

fun children :: "dom \<Rightarrow> dom list" where
  "children (Element e cs) = filter isElement cs"
| "children (TextNode t) = []"

fun nodeNameOf :: "dom \<Rightarrow> string" where
  "nodeNameOf (Element e cs) = nodeName e"
| "nodeNameOf (TextNode t) = ''#text''"

text \<open>
  A node of the document is named by its position: the list of child indices
  (into \<^verbatim>\<open>children\<close>) that leads to it from the root element. Two references are the same
  object exactly when they are the same position.
\<close>

type_synonym node = "nat list"

fun nodeAt :: "dom \<Rightarrow> node \<Rightarrow> dom option" where
  "nodeAt d [] = Some d"
| "nodeAt d (i # p) = (if i < length (children d) then nodeAt (children d ! i) p else None)"

definition childrenAt :: "dom \<Rightarrow> node \<Rightarrow> dom list" where
  "childrenAt doc p = (case nodeAt doc p of None \<Rightarrow> [] | Some d \<Rightarrow> children d)"

text \<open>\<^verbatim>\<open>node.parentElement\<close>: \<^verbatim>\<open>null\<close> at the root element.\<close>

fun parentElement :: "node \<Rightarrow> node option" where
  "parentElement [] = None"
| "parentElement p = Some (butlast p)"

section \<open>Strings\<close>

definition toLowerChar :: "char \<Rightarrow> char" where
  "toLowerChar c = (let n = (of_char c :: nat) in if 65 \<le> n \<and> n \<le> 90 then char_of (n + 32) else c)"

text \<open>\<^verbatim>\<open>s.toLowerCase()\<close>, on the ASCII letters that node names are made of.\<close>

definition toLowerCase :: "string \<Rightarrow> string" where
  "toLowerCase s = map toLowerChar s"

text \<open>\<^verbatim>\<open>parts.join(sep)\<close>.\<close>

fun join :: "string \<Rightarrow> string list \<Rightarrow> string" where
  "join sep [] = []"
| "join sep [p] = p"
| "join sep (p # q # ps) = p @ sep @ join sep (q # ps)"

text \<open>The decimal text of a non-negative integer, as a template literal prints it.\<close>

definition digit :: "nat \<Rightarrow> char" where
  "digit d = char_of (48 + d)"

fun decimal :: "nat \<Rightarrow> string" where
  "decimal n = (if n < 10 then [digit n] else decimal (n div 10) @ [digit (n mod 10)])"

section \<open>element.js: the selector synthesizer\<close>

text \<open>
  \<^verbatim>\<open>
  const escapeIdent = (value) => {
      if (window.CSS && typeof window.CSS.escape === "function") {
          return window.CSS.escape(value);
      }
      return value.replace(/[^a-zA-Z0-9_\-]/g, (char) => `\\${char}`);
  };
  \<close>
  The page's native primitive, when there is one, is a parameter; the fallback puts a
  backslash before every character outside \<^verbatim>\<open>[a-zA-Z0-9_-]\<close>.
\<close>

definition isIdentChar :: "char \<Rightarrow> bool" where
  "isIdentChar c =
     (let n = (of_char c :: nat)
      in (97 \<le> n \<and> n \<le> 122) \<or> (65 \<le> n \<and> n \<le> 90) \<or> (48 \<le> n \<and> n \<le> 57)
         \<or> c = CHR ''_'' \<or> c = CHR ''-'')"

definition escapeFallback :: "string \<Rightarrow> string" where
  "escapeFallback value = concat (map (\<lambda>c. if isIdentChar c then [c] else [CHR 0x5C, c]) value)"

definition escapeIdent :: "(string \<Rightarrow> string) option \<Rightarrow> string \<Rightarrow> string" where
  "escapeIdent css value = (case css of Some native \<Rightarrow> native value | None \<Rightarrow> escapeFallback value)"

text \<open>
  \<^verbatim>\<open>siblings.indexOf(current)\<close> where \<^verbatim>\<open>siblings\<close> is \<^verbatim>\<open>parent.children\<close> filtered by a
  test that \<^verbatim>\<open>current\<close> passes and \<^verbatim>\<open>current\<close> is the child at position \<open>i\<close>: the number of
  children before position \<open>i\<close> that pass the test.
\<close>

definition indexOfChild :: "(dom \<Rightarrow> bool) \<Rightarrow> dom list \<Rightarrow> nat \<Rightarrow> nat" where
  "indexOfChild keep cs i = length (filter keep (take i cs))"

text \<open>
  \<^verbatim>\<open>
  const toSelector = (element) => {
      const parts = [];
      let current = element;
      while (current && current.nodeType === 1) {
          let part = current.nodeName.toLowerCase();
          if (current.id) {
              part = `#${escapeIdent(current.id)}`;
              parts.unshift(part);
              break;
          }
          if (current.classList.length > 0) {
              part += `.${Array.from(current.classList, (cls) => escapeIdent(cls)).join('.')}`;
          }
          const parent = current.parentElement;
          if (parent) {
              const siblings = Array.from(parent.children).filter((child) => child.nodeName === current.nodeName);
              if (siblings.length > 1) {
                  const index = siblings.indexOf(current) + 1;
                  part += `:nth-of-type(${index})`;
              }
          }
          parts.unshift(part);
          current = parent;
      }
      return parts.join(' > ');
  };
  \<close>
  The loop, with \<^verbatim>\<open>parts\<close> as its accumulator. The same function is written twice in
  \<^verbatim>\<open>element.js\<close> (in \<^verbatim>\<open>collectElementInfo\<close> and in the picker), character for character.
\<close>

function toSelector_loop :: "(string \<Rightarrow> string) option \<Rightarrow> dom \<Rightarrow> node \<Rightarrow> string list \<Rightarrow> string list" where
  "toSelector_loop css doc current parts =
     (case nodeAt doc current of
        None \<Rightarrow> parts
      | Some (TextNode t) \<Rightarrow> parts
      | Some (Element e cs) \<Rightarrow>
          if el_id e \<noteq> [] then (''#'' @ escapeIdent css (el_id e)) # parts
          else
            let part = toLowerCase (nodeName e);
                part = (if length (classList e) > 0
                        then part @ ''.'' @ join ''.'' (map (escapeIdent css) (classList e))
                        else part)
            in (case parentElement current of
                  None \<Rightarrow> part # parts
                | Some parent \<Rightarrow>
                    let siblings = filter (\<lambda>child. nodeNameOf child = nodeName e) (childrenAt doc parent);
                        part = (if length siblings > 1
                                then part @ '':nth-of-type(''
                                       @ decimal (indexOfChild (\<lambda>child. nodeNameOf child = nodeName e)
                                                    (childrenAt doc parent) (last current) + 1)
                                       @ '')''
                                else part)
                    in toSelector_loop css doc parent (part # parts)))"
  by pat_completeness auto
termination
  by (relation "measure (\<lambda>(css, doc, current, parts). length current)")
     (auto elim: parentElement.elims)

definition toSelector :: "(string \<Rightarrow> string) option \<Rightarrow> dom \<Rightarrow> node \<Rightarrow> string" where
  "toSelector css doc element = join '' > '' (toSelector_loop css doc element [])"

subsection \<open>The synthesis algorithm as the specification words it\<close>

text \<open>
  The specification describes the selector as a chain of segments, from the root side to
  the node: an id segment \<^verbatim>\<open>#<escaped-id>\<close> at the first node of the ancestor walk that
  has a non-empty id, where the walk stops; for every other node the lower-cased tag name,
  \<^verbatim>\<open>.<escaped-class>\<close> for every class, and \<^verbatim>\<open>:nth-of-type(n)\<close>, with \<open>n\<close> counted from 1,
  exactly when the node's parent has more than one child of the node's tag; the segments
  joined with \<^verbatim>\<open> > \<close>.
\<close>

datatype segment = IdSegment string | TagSegment string "string list" "nat option"







subsection \<open>What a selector of that shape selects\<close>

text \<open>
  The browser's selector engine is not part of the repository. For the selectors the
  synthesizer writes, the CSS standard gives it this meaning. An id segment matches the
  elements with that id. A tag segment matches an element whose lower-cased name is the
  tag, which carries every listed class and, when \<^verbatim>\<open>:nth-of-type(n)\<close> is present, which is
  the \<open>n\<close>-th among the children of its parent that have its type. Segments joined by
  \<^verbatim>\<open>>\<close> match an element when the last segment matches it and the rest match its parent,
  and so on up. \<^verbatim>\<open>querySelector\<close> returns the first match in document order.
\<close>

text \<open>Document order: an element before its descendants, children from first to last.\<close>

lemma size_member:
  "x \<in> set cs \<Longrightarrow> size x < Suc (size_list size cs)"
  by (induction cs) auto

lemma size_filter_nth [termination_simp]:
  "i < length (filter P cs) \<Longrightarrow> size (filter P cs ! i) < Suc (size_list size cs)"
proof -
  assume "i < length (filter P cs)"
  then have "filter P cs ! i \<in> set (filter P cs)"
    by (rule nth_mem)
  then have "filter P cs ! i \<in> set cs"
    by simp
  then show ?thesis
    by (rule size_member)
qed

fun allElements :: "dom \<Rightarrow> node list" where
  "allElements (TextNode t) = []"
| "allElements (Element e cs) =
     [] # concat (map (\<lambda>i. map ((#) i) (allElements (filter isElement cs ! i)))
                     [0..<length (filter isElement cs)])"

definition typeOf :: "dom \<Rightarrow> string" where
  "typeOf d = toLowerCase (nodeNameOf d)"

definition nthOfType :: "dom \<Rightarrow> node \<Rightarrow> nat" where
  "nthOfType doc p =
     (case nodeAt doc p of
        None \<Rightarrow> 0
      | Some d \<Rightarrow> Suc (length (filter (\<lambda>c. typeOf c = typeOf d)
                                 (take (last p) (childrenAt doc (butlast p))))))"

fun matchesSegment :: "dom \<Rightarrow> node \<Rightarrow> segment \<Rightarrow> bool" where
  "matchesSegment doc p (IdSegment i) =
     (case nodeAt doc p of Some (Element e cs) \<Rightarrow> el_id e = i | _ \<Rightarrow> False)"
| "matchesSegment doc p (TagSegment tag classes ordinal) =
     (case nodeAt doc p of
        Some (Element e cs) \<Rightarrow>
          toLowerCase (nodeName e) = tag \<and> list_all (\<lambda>cls. cls \<in> set (classList e)) classes
          \<and> (case ordinal of None \<Rightarrow> True | Some n \<Rightarrow> nthOfType doc p = n)
      | _ \<Rightarrow> False)"

text \<open>The segments are given last segment first.\<close>

fun matchesChain :: "dom \<Rightarrow> node \<Rightarrow> segment list \<Rightarrow> bool" where
  "matchesChain doc p [] = True"
| "matchesChain doc p [s] = matchesSegment doc p s"
| "matchesChain doc p (s # rest) =
     (matchesSegment doc p s \<and> p \<noteq> [] \<and> matchesChain doc (butlast p) rest)"

definition querySelector :: "dom \<Rightarrow> segment list \<Rightarrow> node option" where
  "querySelector doc segs =
     (if segs = [] then None else find (\<lambda>p. matchesChain doc p (rev segs)) (allElements doc))"

subsection \<open>The nodes the round trip is stated for\<close>

text \<open>
  The first node of the ancestor walk, the node itself included, that has a non-empty id;
  \<open>None\<close> when the walk reaches the root without finding one.
\<close>

function nearestIdAncestor :: "dom \<Rightarrow> node \<Rightarrow> node option" where
  "nearestIdAncestor doc p =
     (case nodeAt doc p of
        Some (Element e cs) \<Rightarrow>
          if el_id e \<noteq> [] then Some p
          else if p = [] then None else nearestIdAncestor doc (butlast p)
      | _ \<Rightarrow> None)"
  by pat_completeness auto
termination
  by (relation "measure (\<lambda>(doc, p). length p)") auto

text \<open>The id of the element at a position, and that no other element of the document carries it.\<close>

definition idAt :: "dom \<Rightarrow> node \<Rightarrow> string" where
  "idAt doc p = (case nodeAt doc p of Some (Element e cs) \<Rightarrow> el_id e | _ \<Rightarrow> [])"

definition idUnique :: "dom \<Rightarrow> node \<Rightarrow> bool" where
  "idUnique doc a = (\<forall>q \<in> set (allElements doc). idAt doc q = idAt doc a \<longrightarrow> q = a)"

text \<open>
  The synthesizer compares sibling names as \<^verbatim>\<open>nodeName\<close> spells them, the selector engine
  compares element types. The two agree when siblings of one type spell their name alike,
  as the elements of an HTML document do.
\<close>

definition sameSpelling :: "dom \<Rightarrow> bool" where
  "sameSpelling doc =
     (\<forall>p \<in> set (allElements doc). \<forall>c \<in> set (childrenAt doc p). \<forall>c' \<in> set (childrenAt doc p).
        typeOf c = typeOf c' \<longrightarrow> nodeNameOf c = nodeNameOf c')"


section \<open>The page\<close>

text \<open>
  Besides its document, a page has what rendering adds and what scripts change: where each
  element sits in the viewport (\<^verbatim>\<open>getBoundingClientRect\<close>, which scrolling changes), the
  inline outline style of each element, the cursor style of the body, and the native
  \<^verbatim>\<open>CSS.escape\<close> when the browser has one.
\<close>

record 'a rect =
  rect_x :: 'a
  rect_y :: 'a
  rect_width :: 'a
  rect_height :: 'a

record page =
  document :: dom
  boundingClientRect :: "node \<Rightarrow> rat rect"
  outlineStyle :: "node \<Rightarrow> string"
  bodyCursor :: string
  cssEscape :: "(string \<Rightarrow> string) option"

text \<open>
  What an awaited call comes to: a value, an exception with its message, or nothing at
  all when the promise it waits for is never settled.
\<close>

datatype 'a completion = Returned 'a | Thrown string | NeverSettles

section \<open>element.js: the element descriptor\<close>

text \<open>\<^verbatim>\<open>Math.round\<close>: to the nearest integer, halves upward.\<close>

definition Math_round :: "rat \<Rightarrow> int" where
  "Math_round v = \<lfloor>v + 1 / 2\<rfloor>"

definition roundRect :: "rat rect \<Rightarrow> int rect" where
  "roundRect r =
     \<lparr>rect_x = Math_round (rect_x r), rect_y = Math_round (rect_y r),
      rect_width = Math_round (rect_width r), rect_height = Math_round (rect_height r)\<rparr>"

text \<open>\<^verbatim>\<open>node.textContent\<close>: the text of all descendant text nodes, in document order.\<close>

fun textContent :: "dom \<Rightarrow> string" where
  "textContent (TextNode t) = t"
| "textContent (Element e cs) = concat (map textContent cs)"

text \<open>\<^verbatim>\<open>s.trim()\<close> removes white space and line terminators at both ends.\<close>

definition isWhiteSpace :: "char \<Rightarrow> bool" where
  "isWhiteSpace c = ((of_char c :: nat) \<in> {9, 10, 11, 12, 13, 32, 160})"

definition trim :: "string \<Rightarrow> string" where
  "trim s = rev (dropWhile isWhiteSpace (rev (dropWhile isWhiteSpace s)))"

record info =
  i_selector :: string
  i_tag :: string
  i_id :: "string option"
  i_classes :: "string list"
  i_text :: string
  i_attributes :: "(string \<times> string) list"
  i_rect :: "int rect"
  i_visible :: bool
  i_children :: nat

text \<open>
  \<^verbatim>\<open>
  async function collectElementInfo(page, handle, selectorOverride) {
      return await page.evaluate((el, selectorHint) => {
          ...
          const rect = el.getBoundingClientRect();
          const attributes = Object.fromEntries(
              el.getAttributeNames().map((name) => [name, el.getAttribute(name)]),
          );
          const textContent = el.innerText ?? el.textContent ?? "";
          return {
              selector: selectorHint ?? toSelector(el),
              tag: el.tagName.toLowerCase(),
              id: el.id || null,
              classes: el.classList.length ? Array.from(el.classList) : [],
              text: textContent.trim().slice(0, 160),
              attributes,
              rect: { x: Math.round(rect.x), y: Math.round(rect.y),
                      width: Math.round(rect.width), height: Math.round(rect.height) },
              visible: Boolean(el.offsetParent),
              children: el.children.length,
          };
      }, handle, selectorOverride ?? null);
  }
  \<close>
  The handle is the position of an element of the page as it is when the call is made; on
  a handle that is not an element the evaluation throws.
\<close>

definition collectElementInfo :: "page \<Rightarrow> node \<Rightarrow> string option \<Rightarrow> info completion" where
  "collectElementInfo pg handle selectorOverride =
     (case nodeAt (document pg) handle of
        Some (Element e cs) \<Rightarrow>
          (let rect = boundingClientRect pg handle;
               textContent = (case innerText e of Some t \<Rightarrow> t | None \<Rightarrow> textContent (Element e cs))
           in Returned
                \<lparr>i_selector = (case selectorOverride of Some hint \<Rightarrow> hint
                                | None \<Rightarrow> toSelector (cssEscape pg) (document pg) handle),
                 i_tag = toLowerCase (nodeName e),
                 i_id = (if el_id e \<noteq> [] then Some (el_id e) else None),
                 i_classes = (if length (classList e) \<noteq> 0 then classList e else []),
                 i_text = take 160 (trim textContent),
                 i_attributes = attributes e,
                 i_rect = roundRect rect,
                 i_visible = offsetParent e,
                 i_children = length (children (Element e cs))\<rparr>)
      | _ \<Rightarrow> Thrown ''Cannot read properties of a node that is not an element'')"

section \<open>element.js: the text query\<close>

text \<open>
  \<^verbatim>\<open>findByText\<close> hands the browser the XPath expression
  \<^verbatim>\<open>//*[contains(normalize-space(text()), "<escaped>")]\<close>. The XPath engine is not part of the
  repository; XPath 1.0 gives the expression this meaning. A string literal runs from a
  double quote to the next double quote, and there is no escape inside it. \<^verbatim>\<open>//*\<close> is every
  element of the document, in document order. \<^verbatim>\<open>text()\<close> is the set of the element's own
  text-node children; where a string is wanted a node set stands for the text of its first
  node, or for the empty string when it is empty. \<^verbatim>\<open>normalize-space\<close> strips white space at
  both ends and replaces each run of white space by one space. \<^verbatim>\<open>contains\<close> tests for a
  substring, case-sensitively.
\<close>

definition doubleQuote :: char where
  "doubleQuote = CHR 0x22"

definition backslash :: char where
  "backslash = CHR 0x5C"

fun childNodes :: "dom \<Rightarrow> dom list" where
  "childNodes (Element e cs) = cs"
| "childNodes (TextNode t) = []"

fun textNodeData :: "dom list \<Rightarrow> string list" where
  "textNodeData [] = []"
| "textNodeData (TextNode t # ds) = t # textNodeData ds"
| "textNodeData (Element e cs # ds) = textNodeData ds"

text \<open>The string that \<^verbatim>\<open>text()\<close> stands for at an element.\<close>

definition firstTextNode :: "dom \<Rightarrow> node \<Rightarrow> string" where
  "firstTextNode doc p =
     (case nodeAt doc p of
        None \<Rightarrow> []
      | Some d \<Rightarrow> (case textNodeData (childNodes d) of [] \<Rightarrow> [] | t # ts \<Rightarrow> t))"

definition isXmlSpace :: "char \<Rightarrow> bool" where
  "isXmlSpace c = ((of_char c :: nat) \<in> {9, 10, 13, 32})"

fun collapseSpace :: "bool \<Rightarrow> string \<Rightarrow> string" where
  "collapseSpace pending [] = []"
| "collapseSpace pending (c # cs) =
     (if isXmlSpace c then collapseSpace True cs
      else if pending then CHR '' '' # c # collapseSpace False cs
      else c # collapseSpace False cs)"

definition normalizeSpace :: "string \<Rightarrow> string" where
  "normalizeSpace s = collapseSpace False (dropWhile isXmlSpace s)"

fun startsWith :: "string \<Rightarrow> string \<Rightarrow> bool" where
  "startsWith s [] = True"
| "startsWith [] (n # ns) = False"
| "startsWith (c # cs) (n # ns) = (c = n \<and> startsWith cs ns)"

fun containsString :: "string \<Rightarrow> string \<Rightarrow> bool" where
  "containsString [] needle = (needle = [])"
| "containsString (c # cs) needle = (startsWith (c # cs) needle \<or> containsString cs needle)"

definition xpathHead :: string where
  "xpathHead = ''//*[contains(normalize-space(text()), '' @ [doubleQuote]"

definition xpathTail :: string where
  "xpathTail = doubleQuote # '')]''"

text \<open>
  Reading an expression of that form: after the head the literal runs to the next double
  quote, and what follows the literal must be exactly the tail. Anything else is not an
  XPath expression.
\<close>

definition xpathLiteral :: "string \<Rightarrow> string completion" where
  "xpathLiteral expression =
     (if take (length xpathHead) expression = xpathHead
      then (let rest = drop (length xpathHead) expression;
                literal = takeWhile (\<lambda>c. c \<noteq> doubleQuote) rest
            in if drop (length literal) rest = xpathTail then Returned literal
               else Thrown ''SyntaxError: the string is not a valid XPath expression'')
      else Thrown ''SyntaxError: the string is not a valid XPath expression'')"

text \<open>\<^verbatim>\<open>page.$x(expression)\<close>: handles to the selected elements, in document order.\<close>

definition page_x :: "page \<Rightarrow> string \<Rightarrow> node list completion" where
  "page_x pg expression =
     (case xpathLiteral expression of
        Returned literal \<Rightarrow>
          Returned (filter (\<lambda>p. containsString (normalizeSpace (firstTextNode (document pg) p)) literal)
                       (allElements (document pg)))
      | Thrown msg \<Rightarrow> Thrown msg
      | NeverSettles \<Rightarrow> NeverSettles)"

text \<open>
  A handle the host holds on a value of the page: on an element of the document, given by
  its position, or on \<^verbatim>\<open>null\<close>.
\<close>

datatype handle = NullHandle | NodeHandle node

text \<open>What the host process does that can be observed, in the order it does it.\<close>

datatype logline = ElementScrolled | ElementClicked | ElementFound string

datatype payload = Success info | Failure string

datatype action =
    Dispose handle
  | ScrollIntoView node
  | Click node
  | RetrieveHandoff
  | Info logline
  | PrintJSON payload
  | WriteStdout info
  | WriteStderr string
  | Disconnect

text \<open>
  \<^verbatim>\<open>
  async function findByText(page, text) {
      const escaped = text.replace(/"/g, '\\"');
      const handles = await page.$x(`//*[contains(normalize-space(text()), "${escaped}")]`);
      if (!handles || handles.length === 0) return null;
      const [first, ...rest] = handles;
      await Promise.all(rest.map((handle) => handle.dispose()));
      return first;
  }
  \<close>
  The result comes with the disposals made on the way.
\<close>

definition escapeQuotes :: "string \<Rightarrow> string" where
  "escapeQuotes text = concat (map (\<lambda>c. if c = doubleQuote then [backslash, doubleQuote] else [c]) text)"

definition findByText :: "page \<Rightarrow> string \<Rightarrow> (node option \<times> action list) completion" where
  "findByText pg text =
     (let escaped = escapeQuotes text
      in case page_x pg (xpathHead @ escaped @ xpathTail) of
           Returned handles \<Rightarrow>
             (case handles of
                [] \<Rightarrow> Returned (None, [])
              | first # rest \<Rightarrow> Returned (Some first, map (\<lambda>h. Dispose (NodeHandle h)) rest))
         | Thrown msg \<Rightarrow> Thrown msg
         | NeverSettles \<Rightarrow> NeverSettles)"

text \<open>The elements the expression selects for a literal, in document order.\<close>

definition textMatches :: "dom \<Rightarrow> string \<Rightarrow> node list" where
  "textMatches doc text =
     filter (\<lambda>p. containsString (normalizeSpace (firstTextNode doc p)) text) (allElements doc)"

section \<open>The selector, read back by the page\<close>

text \<open>
  \<^verbatim>\<open>document.querySelector\<close> receives the selector as text. This section reads the part of
  CSS the synthesizer can write: identifiers with literal escapes, a compound made of a type
  selector with class selectors and at most one \<^verbatim>\<open>:nth-of-type(n)\<close>, or of one id selector,
  and compounds joined by the child combinator written \<^verbatim>\<open> > \<close>. Every other text is refused
  with \<open>None\<close>, which the page reports as a \<^verbatim>\<open>SyntaxError\<close>. Strings are over the code units
  below 256, as everywhere in this development.
\<close>

subsection \<open>Identifiers (CSS Syntax Level 3, sections 4.3.8 to 4.3.11)\<close>

definition isDigit :: "char \<Rightarrow> bool" where
  "isDigit c = (let n = (of_char c :: nat) in 48 \<le> n \<and> n \<le> 57)"

definition isHexDigit :: "char \<Rightarrow> bool" where
  "isHexDigit c =
     (let n = (of_char c :: nat) in (48 \<le> n \<and> n \<le> 57) \<or> (65 \<le> n \<and> n \<le> 70) \<or> (97 \<le> n \<and> n \<le> 102))"

definition isNewline :: "char \<Rightarrow> bool" where
  "isNewline c = ((of_char c :: nat) \<in> {10, 12, 13})"

definition isNameStart :: "char \<Rightarrow> bool" where
  "isNameStart c =
     (let n = (of_char c :: nat)
      in (97 \<le> n \<and> n \<le> 122) \<or> (65 \<le> n \<and> n \<le> 90) \<or> c = CHR ''_'' \<or> 128 \<le> n)"

definition isNameChar :: "char \<Rightarrow> bool" where
  "isNameChar c = (isNameStart c \<or> isDigit c \<or> c = CHR ''-'')"

text \<open>
  The reader does not follow two kinds of escape, and refuses them: a hexadecimal escape,
  which stands for a code point, and an escaped NUL, which the preprocessing of the input
  replaces by U+FFFD. A backslash before a newline is no escape and ends the name.
\<close>

definition NUL :: char where
  "NUL = CHR 0x00"

lemma backslash_not_NUL [simp]: "backslash \<noteq> NUL"
  by (simp add: backslash_def NUL_def)

fun readName :: "string \<Rightarrow> (string \<times> string) option" where
  "readName [] = Some ([], [])"
| "readName [c] =
     (if c = backslash \<or> c = NUL then None
      else if isNameChar c then Some ([c], [])
      else Some ([], [c]))"
| "readName (c # d # ds) =
     (if c = NUL then None
      else if c = backslash
      then (if isNewline d then Some ([], c # d # ds)
            else if isHexDigit d \<or> d = NUL then None
            else map_option (\<lambda>(name, rest). (d # name, rest)) (readName ds))
      else if isNameChar c then map_option (\<lambda>(name, rest). (c # name, rest)) (readName (d # ds))
      else Some ([], c # d # ds))"

text \<open>Whether the text starts an identifier: the check of section 4.3.9.\<close>

definition validEscape :: "string \<Rightarrow> bool" where
  "validEscape s = (case s of [] \<Rightarrow> False | d # ds \<Rightarrow> \<not> isNewline d)"

definition startsIdent :: "string \<Rightarrow> bool" where
  "startsIdent s =
     (case s of
        [] \<Rightarrow> False
      | c # cs \<Rightarrow>
          if c = CHR ''-''
          then (case cs of
                  [] \<Rightarrow> False
                | d # ds \<Rightarrow> isNameStart d \<or> d = CHR ''-'' \<or> (d = backslash \<and> validEscape ds))
          else if isNameStart c then True
          else if c = backslash then validEscape cs
          else False)"

definition readIdent :: "string \<Rightarrow> (string \<times> string) option" where
  "readIdent s = (if startsIdent s then readName s else None)"

lemma readName_length:
  "readName s = Some (name, rest) \<Longrightarrow> length rest \<le> length s"
proof (induction s arbitrary: name rest rule: readName.induct)
  case 1
  then show ?case by simp
next
  case (2 c)
  then show ?case by (auto split: if_splits)
next
  case (3 c d ds)
  have nn: "c \<noteq> NUL" using "3.prems" by (auto split: if_splits)
  show ?case
  proof (cases "c = backslash")
    case True
    show ?thesis
    proof (cases "isNewline d")
      case True
      then show ?thesis using "3.prems" nn \<open>c = backslash\<close> by auto
    next
      case False
      then have lit: "\<not> (isHexDigit d \<or> d = NUL)"
        using "3.prems" nn True by (auto split: if_splits)
      then obtain n r where "readName ds = Some (n, r)" "rest = r"
        using "3.prems" nn True False by auto
      then show ?thesis using "3.IH"(1) [of n r] nn True False lit by auto
    qed
  next
    case False
    show ?thesis
    proof (cases "isNameChar c")
      case True
      then obtain n r where "readName (d # ds) = Some (n, r)" "rest = r"
        using "3.prems" nn False by auto
      then show ?thesis using "3.IH"(2) [of n r] nn True False by auto
    next
      case nc: False
      then show ?thesis using "3.prems" nn False by auto
    qed
  qed
qed

lemma readIdent_length [termination_simp]:
  "readIdent s = Some (name, rest) \<Longrightarrow> length rest \<le> length s"
  by (auto simp: readIdent_def readName_length split: if_splits)

subsection \<open>Compounds and the child combinator (Selectors Level 4)\<close>

function readClasses :: "string \<Rightarrow> (string list \<times> string) option" where
  "readClasses s =
     (case s of
        [] \<Rightarrow> Some ([], [])
      | c # cs \<Rightarrow>
          if c = CHR ''.''
          then (case readIdent cs of
                  None \<Rightarrow> None
                | Some (cls, rest) \<Rightarrow> map_option (\<lambda>(more, r). (cls # more, r)) (readClasses rest))
          else Some ([], c # cs))"
  by pat_completeness auto
termination
  by (relation "measure length") (auto dest: readIdent_length)

definition natOfDecimal :: "string \<Rightarrow> nat" where
  "natOfDecimal ds = foldl (\<lambda>a c. 10 * a + ((of_char c :: nat) - 48)) 0 ds"

definition nthPrefix :: string where
  "nthPrefix = '':nth-of-type(''"

definition readNth :: "string \<Rightarrow> (nat option \<times> string) option" where
  "readNth s =
     (if take (length nthPrefix) s = nthPrefix
      then (let rest = drop (length nthPrefix) s;
                ds = takeWhile isDigit rest;
                after = drop (length ds) rest
            in if ds \<noteq> [] \<and> take 1 after = '')'' then Some (Some (natOfDecimal ds), drop 1 after)
               else None)
      else Some (None, s))"

definition readCompound :: "string \<Rightarrow> (segment \<times> string) option" where
  "readCompound s =
     (case s of
        [] \<Rightarrow> None
      | c # cs \<Rightarrow>
          if c = CHR ''#''
          then (case readIdent cs of None \<Rightarrow> None | Some (i, rest) \<Rightarrow> Some (IdSegment i, rest))
          else (case readIdent s of
                  None \<Rightarrow> None
                | Some (tag, r1) \<Rightarrow>
                    (case readClasses r1 of
                       None \<Rightarrow> None
                     | Some (classes, r2) \<Rightarrow>
                         (case readNth r2 of
                            None \<Rightarrow> None
                          | Some (ordinal, r3) \<Rightarrow> Some (TagSegment tag classes ordinal, r3)))))"

lemma readClasses_length:
  "readClasses s = Some (classes, rest) \<Longrightarrow> length rest \<le> length s"
proof (induction s arbitrary: classes rest rule: readClasses.induct)
  case (1 s)
  show ?case
  proof (cases s)
    case Nil
    then show ?thesis using "1.prems" by (simp add: readClasses.simps [of s])
  next
    case (Cons c cs)
    show ?thesis
    proof (cases "c = CHR ''.''")
      case False
      then show ?thesis using "1.prems" Cons by (simp add: readClasses.simps [of s])
    next
      case True
      then obtain cls r1 more where i: "readIdent cs = Some (cls, r1)"
          and m: "readClasses r1 = Some (more, rest)"
        using "1.prems" Cons
        by (auto simp: readClasses.simps [of s] split: option.splits)
      have "length rest \<le> length r1"
        using "1.IH" [OF Cons True i refl m] .
      then show ?thesis using readIdent_length [OF i] Cons by simp
    qed
  qed
qed

lemma readNth_length:
  "readNth s = Some (ordinal, rest) \<Longrightarrow> length rest \<le> length s"
  by (auto simp: readNth_def Let_def split: if_splits)

lemma readCompound_length [termination_simp]:
  "readCompound s = Some (seg, rest) \<Longrightarrow> length rest \<le> length s"
proof (cases s)
  case Nil
  assume "readCompound s = Some (seg, rest)"
  then show ?thesis using Nil by (simp add: readCompound_def)
next
  case (Cons c cs)
  assume a: "readCompound s = Some (seg, rest)"
  show ?thesis
  proof (cases "c = CHR ''#''")
    case True
    then show ?thesis
      using a Cons readIdent_length [of cs]
      by (auto simp: readCompound_def split: option.splits)
  next
    case False
    then obtain tag r1 classes r2 ordinal where i: "readIdent s = Some (tag, r1)"
        and c: "readClasses r1 = Some (classes, r2)"
        and n: "readNth r2 = Some (ordinal, rest)"
      using a Cons by (auto simp: readCompound_def split: option.splits)
    show ?thesis
      using readIdent_length [OF i] readClasses_length [OF c] readNth_length [OF n] by simp
  qed
qed

function readSelector :: "string \<Rightarrow> segment list option" where
  "readSelector s =
     (case readCompound s of
        None \<Rightarrow> None
      | Some (seg, rest) \<Rightarrow>
          if rest = [] then Some [seg]
          else if take 3 rest = '' > '' then map_option ((#) seg) (readSelector (drop 3 rest))
          else None)"
  by pat_completeness auto
termination
proof (relation "measure length")
  show "wf (measure length)" by simp
next
  fix s x2 seg rest
  assume "readCompound s = Some x2" "(seg, rest) = x2" "rest \<noteq> []" "take 3 rest = '' > ''"
  then have "length rest \<le> length s" using readCompound_length [of s seg rest] by simp
  moreover have "length (drop 3 rest) < length rest" using \<open>rest \<noteq> []\<close> by simp
  ultimately show "(drop 3 rest, s) \<in> measure length" by simp
qed

text \<open>
  \<^verbatim>\<open>document.querySelector(selector)\<close>: a text that is no selector throws, any other selects
  the first element in document order that its chain of segments matches.
\<close>

definition querySelectorText :: "dom \<Rightarrow> string \<Rightarrow> node option completion" where
  "querySelectorText doc selector =
     (case readSelector selector of
        None \<Rightarrow> Thrown ''SyntaxError''
      | Some segs \<Rightarrow> Returned (querySelector doc segs))"

subsection \<open>The tokens the fallback escaping keeps readable\<close>


definition literal :: "char \<Rightarrow> bool" where
  "literal c = (\<not> isNewline c \<and> c \<noteq> NUL)"







section \<open>element.js: the interactive picker, inside the page\<close>

text \<open>
  \<^verbatim>\<open>pickElement\<close> evaluates one async function inside the page. The function arms the
  session and returns a promise; from then on the page's event loop runs its handlers,
  one event at a time. The state below holds what the handlers read and write: the page
  side (outline styles, body cursor, the two document listeners, the one-shot blur
  listener, the two properties the script sets on \<^verbatim>\<open>window\<close>, the pending timer), the
  variables of the closure (\<^verbatim>\<open>originalCursor\<close>, \<^verbatim>\<open>state.highlight\<close>,
  \<^verbatim>\<open>state.previousOutline\<close>, \<^verbatim>\<open>state.resolved\<close>, \<^verbatim>\<open>timerId\<close>) and the promise. Three
  counters observe the run without taking part in it: how often \<^verbatim>\<open>cleanup\<close> ran, how many
  clicks were default-prevented, and the exceptions that left a handler uncaught.
\<close>

record picked =
  p_tag :: string
  p_text :: string
  p_rect :: "int rect"
  p_selector :: string

record session =
  outline :: "node \<Rightarrow> string"
  cursor :: string
  mouseoverListener :: bool
  clickListener :: bool
  blurListener :: bool
  BT_PICKER_CANCEL :: bool
  BT_PICKED_ELEMENT :: "node option"
  pendingTimer :: "jsval option"
  originalCursor :: string
  highlight_node :: "node option"
  previousOutline :: "string option"
  resolved :: bool
  timerId :: "nat option"
  settled :: "picked option option"
  cleanups :: nat
  defaultPrevented :: nat
  uncaught :: "string list"

datatype event = Mouseover node | ClickOn node | TimerFires | WindowBlur | CancelCall

text \<open>
  \<^verbatim>\<open>
  const cleanup = () => {
      if (state.highlight) {
          state.highlight.style.outline = state.previousOutline ?? "";
      }
      document.body.style.cursor = originalCursor;
      document.removeEventListener("mouseover", onHover, true);
      document.removeEventListener("click", onClick, true);
      if (timerId) {
          clearTimeout(timerId);
          timerId = null;
      }
  };
  \<close>
\<close>

definition restoreOutline :: "session \<Rightarrow> session" where
  "restoreOutline s =
     (case highlight_node s of
        None \<Rightarrow> s
      | Some h \<Rightarrow> s\<lparr>outline := (outline s)(h := (case previousOutline s of Some v \<Rightarrow> v | None \<Rightarrow> []))\<rparr>)"

definition cleanup :: "session \<Rightarrow> session" where
  "cleanup s =
     (let s1 = restoreOutline s;
          s2 = s1\<lparr>cursor := originalCursor s1\<rparr>;
          s3 = s2\<lparr>mouseoverListener := False\<rparr>;
          s4 = s3\<lparr>clickListener := False\<rparr>;
          s5 = (case timerId s4 of None \<Rightarrow> s4 | Some t \<Rightarrow> s4\<lparr>pendingTimer := None, timerId := None\<rparr>)
      in s5\<lparr>cleanups := Suc (cleanups s5)\<rparr>)"

text \<open>
  \<^verbatim>\<open>
  const highlight = (element) => {
      if (state.highlight === element) return;
      if (state.highlight) {
          state.highlight.style.outline = state.previousOutline ?? "";
      }
      state.highlight = element;
      state.previousOutline = element.style.outline;
      element.style.outline = "3px solid #ff4444";
  };
  \<close>
\<close>

definition highlight :: "node \<Rightarrow> session \<Rightarrow> session" where
  "highlight element s =
     (if highlight_node s = Some element then s
      else (let s1 = restoreOutline s;
                s2 = s1\<lparr>highlight_node := Some element\<rparr>;
                s3 = s2\<lparr>previousOutline := Some (outline s2 element)\<rparr>
            in s3\<lparr>outline := (outline s3)(element := ''3px solid #ff4444'')\<rparr>))"

text \<open>
  \<^verbatim>\<open>
  const buildInfo = (element) => {
      const rect = element.getBoundingClientRect();
      return {
          tag: element.tagName.toLowerCase(),
          text: (element.innerText ?? element.textContent ?? "").trim().slice(0, 160),
          rect: { x: Math.round(rect.x), y: Math.round(rect.y),
                  width: Math.round(rect.width), height: Math.round(rect.height) },
      };
  };
  const resolveSelection = (element) => {
      if (!element) return null;
      const info = buildInfo(element);
      const selector = toSelector(element);
      window.__BT_PICKED_ELEMENT = element;
      return { ...info, selector };
  };
  \<close>
  \<^verbatim>\<open>resolveSelection\<close> returns its value together with the session in which the handoff
  slot is written.
\<close>

definition resolveSelection :: "page \<Rightarrow> node \<Rightarrow> session \<Rightarrow> picked option \<times> session" where
  "resolveSelection pg element s =
     (case nodeAt (document pg) element of
        Some (Element e cs) \<Rightarrow>
          (Some \<lparr>p_tag = toLowerCase (nodeName e),
                 p_text = take 160 (trim (case innerText e of Some t \<Rightarrow> t
                                          | None \<Rightarrow> textContent (Element e cs))),
                 p_rect = roundRect (boundingClientRect pg element),
                 p_selector = toSelector (cssEscape pg) (document pg) element\<rparr>,
           s\<lparr>BT_PICKED_ELEMENT := Some element\<rparr>)
      | _ \<Rightarrow> (None, s))"

text \<open>
  \<^verbatim>\<open>
  const onHover = (event) => {
      if (state.resolved) return;
      const target = event.target;
      if (!(target instanceof HTMLElement)) return;
      highlight(target);
  };
  \<close>
\<close>

definition instanceofHTMLElement :: "dom \<Rightarrow> node \<Rightarrow> bool" where
  "instanceofHTMLElement doc target =
     (case nodeAt doc target of Some (Element e cs) \<Rightarrow> isHTMLElement e | _ \<Rightarrow> False)"

definition onHover :: "page \<Rightarrow> node \<Rightarrow> session \<Rightarrow> session" where
  "onHover pg target s =
     (if resolved s then s
      else if \<not> instanceofHTMLElement (document pg) target then s
      else highlight target s)"

text \<open>
  \<^verbatim>\<open>
  const onClick = (event) => {
      event.preventDefault();
      event.stopPropagation();
      if (state.resolved) return;
      state.resolved = true;
      cleanup();
      resolve(resolveSelection(event.target));
  };
  ...
  return await new Promise((resolve) => { ... });
  \<close>
  The last statement calls \<^verbatim>\<open>resolve\<close>. The only binding of that name is the parameter of
  the promise's executor, an arrow function further down; \<^verbatim>\<open>onClick\<close> is defined outside
  it, in the body of the evaluated function, where no \<^verbatim>\<open>resolve\<close> is declared. The name
  is therefore looked up on the page's global object, and on a page that defines no such
  global the lookup throws a \<^verbatim>\<open>ReferenceError\<close>. A call evaluates its callee before its
  arguments, so \<^verbatim>\<open>resolveSelection\<close> is not run: the handoff slot stays empty and the
  promise is not settled. The exception leaves the handler uncaught.
\<close>

definition onClick :: "page \<Rightarrow> node \<Rightarrow> session \<Rightarrow> session" where
  "onClick pg target s =
     (let s1 = s\<lparr>defaultPrevented := Suc (defaultPrevented s)\<rparr>
      in if resolved s1 then s1
         else (let s2 = s1\<lparr>resolved := True\<rparr>;
                   s3 = cleanup s2
               in s3\<lparr>uncaught := uncaught s3 @ [''ReferenceError: resolve is not defined'']\<rparr>))"

text \<open>
  Settling the promise: \<^verbatim>\<open>resolve(v)\<close> inside the executor. A promise keeps its first
  settlement.
\<close>

definition resolve :: "picked option \<Rightarrow> session \<Rightarrow> session" where
  "resolve v s = (case settled s of None \<Rightarrow> s\<lparr>settled := Some v\<rparr> | Some w \<Rightarrow> s)"

text \<open>
  The timer callback, the blur listener and \<^verbatim>\<open>window.__BT_PICKER_CANCEL\<close> have the same
  body:
  \<^verbatim>\<open>
      if (state.resolved) return;
      state.resolved = true;
      cleanup();
      resolve(null);
  \<close>
\<close>

definition onTimeout :: "session \<Rightarrow> session" where
  "onTimeout s = (if resolved s then s else resolve None (cleanup (s\<lparr>resolved := True\<rparr>)))"

definition onBlur :: "session \<Rightarrow> session" where
  "onBlur s = (if resolved s then s else resolve None (cleanup (s\<lparr>resolved := True\<rparr>)))"

definition onCancel :: "session \<Rightarrow> session" where
  "onCancel s = (if resolved s then s else resolve None (cleanup (s\<lparr>resolved := True\<rparr>)))"

text \<open>
  Arming the session: the statements the evaluated function runs before it waits.
  \<^verbatim>\<open>
  const originalCursor = document.body?.style?.cursor ?? "";
  const state = { highlight: null, previousOutline: null, resolved: false };
  let timerId = null;
  ...
  document.body.style.cursor = "crosshair";
  document.addEventListener("mouseover", onHover, true);
  document.addEventListener("click", onClick, true);
  return await new Promise((resolve) => {
      timerId = timeout ? setTimeout(() => { ... }, timeout) : null;
      window.addEventListener("blur", () => { ... }, { once: true });
      window.__BT_PICKER_CANCEL = () => { ... };
  });
  \<close>
\<close>

definition arm :: "page \<Rightarrow> jsval \<Rightarrow> session" where
  "arm pg timeout =
     \<lparr>outline = outlineStyle pg,
      cursor = ''crosshair'',
      mouseoverListener = True,
      clickListener = True,
      blurListener = True,
      BT_PICKER_CANCEL = True,
      BT_PICKED_ELEMENT = None,
      pendingTimer = (if truthy timeout then Some timeout else None),
      originalCursor = bodyCursor pg,
      highlight_node = None,
      previousOutline = None,
      resolved = False,
      timerId = (if truthy timeout then Some 1 else None),
      settled = None,
      cleanups = 0,
      defaultPrevented = 0,
      uncaught = []\<rparr>"

text \<open>
  One turn of the page's event loop. An event reaches a handler only while the handler is
  installed; a timer fires only while it is pending, and once; the blur listener is
  removed when it has run once.
\<close>

fun step :: "page \<Rightarrow> session \<Rightarrow> event \<Rightarrow> session" where
  "step pg s (Mouseover target) = (if mouseoverListener s then onHover pg target s else s)"
| "step pg s (ClickOn target) = (if clickListener s then onClick pg target s else s)"
| "step pg s TimerFires =
     (case pendingTimer s of None \<Rightarrow> s | Some d \<Rightarrow> onTimeout (s\<lparr>pendingTimer := None\<rparr>))"
| "step pg s WindowBlur = (if blurListener s then onBlur (s\<lparr>blurListener := False\<rparr>) else s)"
| "step pg s CancelCall = (if BT_PICKER_CANCEL s then onCancel s else s)"

text \<open>
  The whole stay inside the page: the session is armed, the events of the run happen in
  their order, and a timer that is still pending after them fires in the end.
\<close>

definition runPicker :: "page \<Rightarrow> jsval \<Rightarrow> event list \<Rightarrow> session" where
  "runPicker pg timeout events = step pg (foldl (step pg) (arm pg timeout) events) TimerFires"

section \<open>element.js: the interactive picker, on the host\<close>

text \<open>
  \<^verbatim>\<open>
  async function pickElement(page, timeoutMs) {
      const result = await page.evaluate(async (timeout) => { ... }, timeoutMs || 60000);
      if (!result) return null;
      const handle = await page.evaluateHandle(() => {
          const element = window.__BT_PICKED_ELEMENT ?? null;
          delete window.__BT_PICKED_ELEMENT;
          delete window.__BT_PICKER_CANCEL;
          return element;
      });
      const element = handle.asElement();
      if (!element) {
          await handle.dispose();
          return null;
      }
      const info = await collectElementInfo(page, element, result.selector);
      return { handle: element, info };
  }
  \<close>
  The part after the evaluation takes the value the promise was settled with and the
  window as the session left it. A handle is an element handle when it refers to an
  element of the document. The result comes with what the host did on the way and with
  the session as the host leaves it.
\<close>

definition asElement :: "page \<Rightarrow> handle \<Rightarrow> node option" where
  "asElement pg h =
     (case h of
        NullHandle \<Rightarrow> None
      | NodeHandle n \<Rightarrow> (case nodeAt (document pg) n of Some (Element e cs) \<Rightarrow> Some n | _ \<Rightarrow> None))"

definition retrieveHandoff :: "session \<Rightarrow> handle \<times> session" where
  "retrieveHandoff s =
     ((case BT_PICKED_ELEMENT s of None \<Rightarrow> NullHandle | Some n \<Rightarrow> NodeHandle n),
      s\<lparr>BT_PICKED_ELEMENT := None, BT_PICKER_CANCEL := False\<rparr>)"

record pick =
  returned :: "(node \<times> info) option completion"
  did :: "action list"
  after :: session

definition pickElement_host :: "page \<Rightarrow> session \<Rightarrow> picked option \<Rightarrow> pick" where
  "pickElement_host pg s result =
     (case result of
        None \<Rightarrow> \<lparr>returned = Returned None, did = [], after = s\<rparr>
      | Some r \<Rightarrow>
          (let (h, s') = retrieveHandoff s
           in case asElement pg h of
                None \<Rightarrow> \<lparr>returned = Returned None, did = [RetrieveHandoff, Dispose h], after = s'\<rparr>
              | Some element \<Rightarrow>
                  (case collectElementInfo pg element (Some (p_selector r)) of
                     Returned info \<Rightarrow>
                       \<lparr>returned = Returned (Some (element, info)), did = [RetrieveHandoff], after = s'\<rparr>
                   | Thrown msg \<Rightarrow> \<lparr>returned = Thrown msg, did = [RetrieveHandoff], after = s'\<rparr>
                   | NeverSettles \<Rightarrow> \<lparr>returned = NeverSettles, did = [RetrieveHandoff], after = s'\<rparr>)))"

definition pickElement :: "page \<Rightarrow> jsval \<Rightarrow> event list \<Rightarrow> pick" where
  "pickElement pg timeoutMs events =
     (let s = runPicker pg (js_or timeoutMs (JNum (Finite 60000))) events
      in case settled s of
           None \<Rightarrow> \<lparr>returned = NeverSettles, did = [], after = s\<rparr>
         | Some result \<Rightarrow> pickElement_host pg s result)"

section \<open>element.js: resolution and the main flow\<close>

text \<open>
  Three operations of the browser are neither in the repository nor given a meaning
  above: \<^verbatim>\<open>page.$(selector)\<close> for an arbitrary selector text, which returns a handle or
  \<^verbatim>\<open>null\<close> or throws on a text that is no selector; \<^verbatim>\<open>el.scrollIntoView(...)\<close>, which
  changes the page; and \<^verbatim>\<open>handle.click(...)\<close>, which changes the page or throws. They are
  parameters.
\<close>

record browser =
  page_query :: "page \<Rightarrow> string \<Rightarrow> node option completion"
  scrollIntoView :: "page \<Rightarrow> node \<Rightarrow> page"
  handle_click :: "page \<Rightarrow> node \<Rightarrow> page completion"

text \<open>
  \<^verbatim>\<open>
  async function resolveElement(page, { selector: rawSelector, textSearch: rawText, timeout: timeoutMs }) {
      if (rawSelector) {
          const handle = await page.$(rawSelector);
          if (!handle) return null;
          const info = await collectElementInfo(page, handle, rawSelector);
          return { handle, info };
      }
      if (rawText) {
          const handle = await findByText(page, rawText);
          if (!handle) return null;
          const info = await collectElementInfo(page, handle);
          return { handle, info };
      }
      return await pickElement(page, timeoutMs);
  }
  \<close>
  \<^verbatim>\<open>rawSelector\<close> and \<^verbatim>\<open>rawText\<close> are strings or \<^verbatim>\<open>null\<close>; the empty string is falsy.
\<close>

definition present :: "string option \<Rightarrow> bool" where
  "present v = (case v of None \<Rightarrow> False | Some s \<Rightarrow> s \<noteq> [])"

definition stringOf :: "string option \<Rightarrow> string" where
  "stringOf v = (case v of None \<Rightarrow> ''null'' | Some s \<Rightarrow> s)"

definition withInfo :: "page \<Rightarrow> node \<Rightarrow> string option \<Rightarrow> action list
    \<Rightarrow> (node \<times> info) option completion \<times> action list" where
  "withInfo pg h selectorOverride acts =
     (case collectElementInfo pg h selectorOverride of
        Returned info \<Rightarrow> (Returned (Some (h, info)), acts)
      | Thrown msg \<Rightarrow> (Thrown msg, acts)
      | NeverSettles \<Rightarrow> (NeverSettles, acts))"

definition resolveElement :: "browser \<Rightarrow> page \<Rightarrow> string option \<Rightarrow> string option \<Rightarrow> jsval \<Rightarrow> event list
    \<Rightarrow> (node \<times> info) option completion \<times> action list" where
  "resolveElement br pg rawSelector rawText timeoutMs events =
     (if present rawSelector
      then (case page_query br pg (stringOf rawSelector) of
              Returned None \<Rightarrow> (Returned None, [])
            | Returned (Some h) \<Rightarrow> withInfo pg h rawSelector []
            | Thrown msg \<Rightarrow> (Thrown msg, [])
            | NeverSettles \<Rightarrow> (NeverSettles, []))
      else if present rawText
      then (case findByText pg (stringOf rawText) of
              Returned (None, acts) \<Rightarrow> (Returned None, acts)
            | Returned (Some h, acts) \<Rightarrow> withInfo pg h None acts
            | Thrown msg \<Rightarrow> (Thrown msg, [])
            | NeverSettles \<Rightarrow> (NeverSettles, []))
      else (let p = pickElement pg timeoutMs events in (returned p, did p)))"

text \<open>
  \<^verbatim>\<open>
  export function fail(message, { code = 1, json = false } = {}) {
      if (json) {
          printJSON({ ok: false, error: message });
      } else {
          process.stderr.write(`${message}\n`);
      }
      process.exit(code);
  }
  \<close>
  \<^verbatim>\<open>process.exit\<close> ends the process at once: nothing after it runs, no \<^verbatim>\<open>finally\<close> block
  either. A run is what was done, how it ended and the page it left.
\<close>

datatype ending = Exit nat | Completed | Waiting

record run =
  actions :: "action list"
  ending :: ending
  finalPage :: page

definition fail :: "page \<Rightarrow> action list \<Rightarrow> string \<Rightarrow> bool \<Rightarrow> run" where
  "fail pg acts message json =
     \<lparr>actions = acts @ (if json then [PrintJSON (Failure message)]
                         else [WriteStderr (message @ [CHR 0x0A])]),
      ending = Exit 1,
      finalPage = pg\<rparr>"

text \<open>
  The parsed command line, as far as the main flow reads it: \<^verbatim>\<open>args._[0] ?? null\<close>,
  \<^verbatim>\<open>args.text ?? null\<close>, \<^verbatim>\<open>args.timeout\<close> and the four boolean flags.
\<close>

record args =
  arg_selector :: "string option"
  arg_text :: "string option"
  arg_timeout :: jsval
  arg_click :: bool
  arg_scroll :: bool
  arg_json :: bool
  arg_quiet :: bool

text \<open>\<^verbatim>\<open>logger.info\<close> writes only when neither \<^verbatim>\<open>--quiet\<close> nor \<^verbatim>\<open>--json\<close> is given.\<close>

definition logger_info :: "args \<Rightarrow> logline \<Rightarrow> action list" where
  "logger_info a l = (if \<not> arg_quiet a \<and> \<not> arg_json a then [Info l] else [])"

text \<open>
  The main flow of \<^verbatim>\<open>element.js\<close> from the resolution on (the connection and the active
  page are there):
  \<^verbatim>\<open>
  try {
      ...
      const elementResult = await resolveElement(page, { selector, textSearch, timeout });
      if (!elementResult || !elementResult.handle) {
          const message = selector
              ? `Selector not found: ${selector}`
              : textSearch
                ? `No element found containing text: ${textSearch}`
                : "No element selected.";
          fail(message, { json: jsonOutput });
      }
      const { handle, info } = elementResult;
      if (args.scroll) {
          await handle.evaluate((el) => {
              el.scrollIntoView({ behavior: "smooth", block: "center", inline: "center" });
          });
          logger.info("...  Element scrolled into view");
      }
      if (args.click) {
          try {
              await handle.click({ delay: 20 });
              logger.info("...  Element clicked");
          } catch (error) {
              fail(`Click failed: ${error.message}`, { json: jsonOutput });
          }
      }
      const output = { ok: true, selector: info.selector, tag: info.tag, id: info.id,
          classes: info.classes, text: info.text, attributes: info.attributes,
          rect: info.rect, visible: info.visible, children: info.children };
      if (jsonOutput) {
          printJSON(output);
      } else {
          logger.info(`... Element ${info.selector}`);
          process.stdout.write(formatHumanOutput(output));
      }
      await handle.dispose();
  } catch (error) {
      fail(`Element lookup failed: ${error.message}`, { json: jsonOutput });
  } finally {
      if (browser) await browser.disconnect();
  }
  \<close>
\<close>

definition notFoundMessage :: "args \<Rightarrow> string" where
  "notFoundMessage a =
     (if present (arg_selector a) then ''Selector not found: '' @ stringOf (arg_selector a)
      else if present (arg_text a) then ''No element found containing text: '' @ stringOf (arg_text a)
      else ''No element selected.'')"

definition emit :: "args \<Rightarrow> page \<Rightarrow> action list \<Rightarrow> node \<Rightarrow> info \<Rightarrow> run" where
  "emit a pg acts h info =
     \<lparr>actions = acts
        @ (if arg_json a then [PrintJSON (Success info)]
           else logger_info a (ElementFound (i_selector info)) @ [WriteStdout info])
        @ [Dispose (NodeHandle h), Disconnect],
      ending = Completed,
      finalPage = pg\<rparr>"

definition element_main :: "runtime \<Rightarrow> browser \<Rightarrow> args \<Rightarrow> page \<Rightarrow> event list \<Rightarrow> run" where
  "element_main rt br a pg events =
     (let jsonOutput = arg_json a;
          timeout = normalizeNumber rt (arg_timeout a) (JNum (Finite 15000))
      in case resolveElement br pg (arg_selector a) (arg_text a) timeout events of
           (NeverSettles, acts) \<Rightarrow> \<lparr>actions = acts, ending = Waiting, finalPage = pg\<rparr>
         | (Thrown msg, acts) \<Rightarrow> fail pg acts (''Element lookup failed: '' @ msg) jsonOutput
         | (Returned None, acts) \<Rightarrow> fail pg acts (notFoundMessage a) jsonOutput
         | (Returned (Some (h, info)), acts) \<Rightarrow>
             (let (pg1, acts1) =
                    (if arg_scroll a
                     then (scrollIntoView br pg h, acts @ [ScrollIntoView h] @ logger_info a ElementScrolled)
                     else (pg, acts))
              in if arg_click a
                 then (case handle_click br pg1 h of
                         Returned pg2 \<Rightarrow> emit a pg2 (acts1 @ [Click h] @ logger_info a ElementClicked) h info
                       | Thrown msg \<Rightarrow> fail pg1 acts1 (''Click failed: '' @ msg) jsonOutput
                       | NeverSettles \<Rightarrow> \<lparr>actions = acts1, ending = Waiting, finalPage = pg1\<rparr>)
                 else emit a pg1 acts1 h info))"

section \<open>The states of a picker session\<close>

text \<open>
  An event ends the session when it is a click, the window losing focus, a call of the
  cancel hook, or the timer firing in a session that armed one.
\<close>

fun terminal :: "jsval \<Rightarrow> event \<Rightarrow> bool" where
  "terminal t (Mouseover n) = False"
| "terminal t (ClickOn n) = True"
| "terminal t TimerFires = truthy t"
| "terminal t WindowBlur = True"
| "terminal t CancelCall = True"

text \<open>
  What holds of a session armed on page \<open>pg\<close> with in-page timeout \<open>t\<close> while no such event
  has come: nothing is cleaned up, every handler is installed, the timer is as armed,
  nothing is settled, and the only change to the page's outlines is the picker's outline
  on the highlighted node, whose own outline is remembered.
\<close>

definition openInv :: "page \<Rightarrow> jsval \<Rightarrow> session \<Rightarrow> bool" where
  "openInv pg t s =
     (\<not> resolved s \<and> cleanups s = 0 \<and> mouseoverListener s \<and> clickListener s \<and> blurListener s
      \<and> BT_PICKER_CANCEL s \<and> BT_PICKED_ELEMENT s = None
      \<and> pendingTimer s = (if truthy t then Some t else None)
      \<and> timerId s = (if truthy t then Some 1 else None)
      \<and> originalCursor s = bodyCursor pg \<and> settled s = None \<and> uncaught s = []
      \<and> (case highlight_node s of
            None \<Rightarrow> outline s = outlineStyle pg
          | Some h \<Rightarrow> previousOutline s = Some (outlineStyle pg h)
                      \<and> outline s = (outlineStyle pg)(h := ''3px solid #ff4444'')))"

text \<open>What holds once such an event has come.\<close>

definition closedInv :: "page \<Rightarrow> session \<Rightarrow> bool" where
  "closedInv pg s =
     (resolved s \<and> cleanups s = 1 \<and> \<not> mouseoverListener s \<and> \<not> clickListener s
      \<and> pendingTimer s = None \<and> timerId s = None
      \<and> outline s = outlineStyle pg \<and> cursor s = bodyCursor pg)"

section \<open>Documents, pages and command lines used for evaluation\<close>

text \<open>
  An HTML element with a name, an id and classes, no attributes, and no \<^verbatim>\<open>innerText\<close> of
  its own, so that its text is its \<^verbatim>\<open>textContent\<close>.
\<close>

definition plainElement :: "string \<Rightarrow> string \<Rightarrow> string list \<Rightarrow> elem" where
  "plainElement name ident classes =
     \<lparr>nodeName = name, el_id = ident, classList = classes, attributes = [], innerText = None,
      offsetParent = True, isHTMLElement = True\<rparr>"

text \<open>
  \<^verbatim>\<open><html><body><div id="main">hi<span></span><p></p><span></span></div><div><p></p></div></body></html>\<close>,
  the first \<^verbatim>\<open>span\<close> with the classes \<^verbatim>\<open>a b\<close> (a space inside, to exercise the escaping)
  and \<^verbatim>\<open>c\<close>.
\<close>

definition sampleDocument :: dom where
  "sampleDocument =
     Element (plainElement ''HTML'' [] [])
       [Element (plainElement ''BODY'' [] [])
          [Element (plainElement ''DIV'' ''main'' [])
             [TextNode ''hi'',
              Element (plainElement ''SPAN'' [] [''a b'', ''c'']) [],
              Element (plainElement ''P'' [] []) [],
              Element (plainElement ''SPAN'' [] []) []],
           Element (plainElement ''DIV'' [] []) [Element (plainElement ''P'' [] []) []]]]"


text \<open>
  \<^verbatim>\<open><div id="x">\<close> with two children of the same type whose names are spelled \<^verbatim>\<open>A\<close> and \<^verbatim>\<open>a\<close>,
  as an HTML and an SVG link side by side are.
\<close>

definition mixedCaseDocument :: dom where
  "mixedCaseDocument =
     Element (plainElement ''HTML'' [] [])
       [Element (plainElement ''BODY'' [] [])
          [Element (plainElement ''DIV'' ''x'' [])
             [Element (plainElement ''A'' [] []) [], Element (plainElement ''a'' [] []) []]]]"

text \<open>
  \<^verbatim>\<open><html><body><div id="1a"><span></span></div></body></html>\<close>: one id, which starts with
  a digit, as HTML allows.
\<close>

definition digitIdDocument :: dom where
  "digitIdDocument =
     Element (plainElement ''HTML'' [] [])
       [Element (plainElement ''BODY'' [] [])
          [Element (plainElement ''DIV'' ''1a'' []) [Element (plainElement ''SPAN'' [] []) []]]]"

text \<open>A page around \<open>sampleDocument\<close>: every element sits at \<open>(8, 1200.5)\<close>.\<close>

definition samplePage :: page where
  "samplePage =
     \<lparr>document = sampleDocument,
      boundingClientRect = (\<lambda>n. \<lparr>rect_x = 8, rect_y = 2401 / 2, rect_width = 100, rect_height = 20\<rparr>),
      outlineStyle = (\<lambda>n. if n = [0, 0] then ''1px dotted'' else []),
      bodyCursor = ''pointer'',
      cssEscape = None\<rparr>"

text \<open>
  A runtime that reads no string as a number and prints whole numbers in decimal; a
  browser whose \<^verbatim>\<open>page.$\<close> understands \<^verbatim>\<open>#id\<close> selectors only, whose scrolling moves the
  element to \<open>y = 300\<close> and whose click always succeeds and changes nothing.
\<close>

definition sampleRuntime :: runtime where
  "sampleRuntime =
     \<lparr>StringToNumber = (\<lambda>s. NaN),
      NumberToString = (\<lambda>n. case n of Finite r \<Rightarrow> decimal (nat \<lfloor>r\<rfloor>) | _ \<Rightarrow> ''NaN'')\<rparr>"

definition sampleBrowser :: browser where
  "sampleBrowser =
     \<lparr>page_query = (\<lambda>pg sel. case sel of
                       [] \<Rightarrow> Thrown ''SyntaxError''
                     | c # ident \<Rightarrow>
                         if c = CHR ''#''
                         then Returned (find (\<lambda>p. idAt (document pg) p = ident) (allElements (document pg)))
                         else Returned None),
      scrollIntoView = (\<lambda>pg h. pg\<lparr>boundingClientRect :=
                          (\<lambda>n. (boundingClientRect pg n)\<lparr>rect_y :=
                             rect_y (boundingClientRect pg n) - (rect_y (boundingClientRect pg h) - 300)\<rparr>)\<rparr>),
      handle_click = (\<lambda>pg h. Returned pg)\<rparr>"

text \<open>Command lines, and the descriptor of \<^verbatim>\<open>#main\<close> on \<open>samplePage\<close>.\<close>

definition scrollAndClick :: args where
  "scrollAndClick =
     \<lparr>arg_selector = Some ''#main'', arg_text = None, arg_timeout = JNum (Finite 15000),
      arg_click = True, arg_scroll = True, arg_json = True, arg_quiet = False\<rparr>"

definition missingSelector :: args where
  "missingSelector =
     \<lparr>arg_selector = Some ''#nothing'', arg_text = None, arg_timeout = JNum (Finite 15000),
      arg_click = False, arg_scroll = False, arg_json = True, arg_quiet = False\<rparr>"

definition submitQuery :: args where
  "submitQuery =
     \<lparr>arg_selector = None, arg_text = Some ''Submit'', arg_timeout = JNum (Finite 15000),
      arg_click = False, arg_scroll = False, arg_json = True, arg_quiet = False\<rparr>"

definition mainInfo :: info where
  "mainInfo =
     \<lparr>i_selector = ''#main'', i_tag = ''div'', i_id = Some ''main'', i_classes = [], i_text = ''hi'',
      i_attributes = [], i_rect = \<lparr>rect_x = 8, rect_y = 1201, rect_width = 100, rect_height = 20\<rparr>,
      i_visible = True, i_children = 3\<rparr>"


text \<open>
  \<^verbatim>\<open><html><body><p>Click <b>here</b> to Submit</p></body></html>\<close>: the text of the paragraph
  is split over two text nodes.
\<close>

definition splitParagraph :: dom where
  "splitParagraph =
     Element (plainElement ''P'' [] [])
       [TextNode ''Click '', Element (plainElement ''B'' [] []) [TextNode ''here''], TextNode '' to Submit'']"

definition textPage :: page where
  "textPage =
     \<lparr>document = Element (plainElement ''HTML'' [] []) [Element (plainElement ''BODY'' [] []) [splitParagraph]],
      boundingClientRect = (\<lambda>n. \<lparr>rect_x = 0, rect_y = 0, rect_width = 10, rect_height = 10\<rparr>),
      outlineStyle = (\<lambda>n. []),
      bodyCursor = [],
      cssEscape = None\<rparr>"

text \<open>
  The recursive equations of the three walks are unfolded by hand in the proofs.
\<close>

declare toSelector_loop.simps [simp del]
declare nearestIdAncestor.simps [simp del]
declare decimal.simps [simp del]
declare readClasses.simps [simp del]
declare readSelector.simps [simp del]

section \<open>Properties of the connection resolver\<close>

lemma normalizeNumber_finite:
  "isFinite (normalizeNumber rt v (JNum (Finite d)))"
  by (cases v) (auto simp: normalizeNumber_def Let_def split: jsval.splits jsnum.splits
      elim: isFinite.elims)

section \<open>Properties of the selector synthesizer\<close>


lemma parentElement_Some:
  "parentElement p = Some q \<longleftrightarrow> p \<noteq> [] \<and> q = butlast p"
  by (cases p) auto

lemma parentElement_None:
  "parentElement p = None \<longleftrightarrow> p = []"
  by (cases p) auto

lemma parentElement_snoc [simp]: "parentElement (p @ [i]) = Some p"
  by (cases p) auto





























section \<open>Properties of the picker\<close>

lemma arm_open: "openInv pg t (arm pg t)"
  by (simp add: openInv_def arm_def)

lemma cleanup_closes:
  "openInv pg t s \<Longrightarrow> closedInv pg (cleanup (s\<lparr>resolved := True\<rparr>))"
  by (auto simp: openInv_def closedInv_def cleanup_def restoreOutline_def Let_def
      split: option.splits if_splits)

lemma highlight_open:
  "openInv pg t s \<Longrightarrow> openInv pg t (highlight n s)"
  by (auto simp: openInv_def highlight_def restoreOutline_def Let_def split: option.splits)


lemma step_open_stays:
  "openInv pg t s \<Longrightarrow> \<not> terminal t ev \<Longrightarrow> openInv pg t (step pg s ev)"
proof (cases ev)
  case (Mouseover n)
  assume "openInv pg t s"
  then show ?thesis
    using Mouseover highlight_open [of pg t s n] by (auto simp: onHover_def openInv_def)
next
  case TimerFires
  assume "openInv pg t s" "\<not> terminal t ev"
  then show ?thesis using TimerFires by (simp add: openInv_def)
qed auto

lemma step_open_closes:
  "openInv pg t s \<Longrightarrow> terminal t ev \<Longrightarrow> closedInv pg (step pg s ev)"
proof (cases ev)
  case (ClickOn n)
  assume o: "openInv pg t s"
  have o': "openInv pg t (s\<lparr>defaultPrevented := Suc (defaultPrevented s)\<rparr>)"
    using o by (simp add: openInv_def split: option.splits)
  show ?thesis
    using ClickOn o cleanup_closes [OF o']
    by (auto simp: onClick_def Let_def openInv_def closedInv_def)
next
  case TimerFires
  assume o: "openInv pg t s" and "terminal t ev"
  then have tt: "truthy t" using TimerFires by simp
  have c: "closedInv pg (cleanup (s\<lparr>resolved := True\<rparr>))" using cleanup_closes [OF o] .
  have "cleanup (s\<lparr>pendingTimer := None, resolved := True\<rparr>) = cleanup (s\<lparr>resolved := True\<rparr>)"
    using o tt by (simp add: cleanup_def restoreOutline_def Let_def openInv_def split: option.splits)
  then show ?thesis
    using TimerFires o tt c
    by (simp add: onTimeout_def resolve_def openInv_def closedInv_def split: option.splits)
next
  case WindowBlur
  assume o: "openInv pg t s"
  have "closedInv pg (cleanup (s\<lparr>blurListener := False, resolved := True\<rparr>))"
    using o by (auto simp: openInv_def closedInv_def cleanup_def restoreOutline_def Let_def
        split: option.splits if_splits)
  then show ?thesis
    using WindowBlur o
    by (simp add: onBlur_def resolve_def openInv_def closedInv_def split: option.splits)
next
  case CancelCall
  assume o: "openInv pg t s"
  show ?thesis
    using CancelCall o cleanup_closes [OF o]
    by (simp add: onCancel_def resolve_def openInv_def closedInv_def split: option.splits)
qed auto

lemma step_closed_stays:
  "closedInv pg s \<Longrightarrow> closedInv pg (step pg s ev)"
  by (cases ev) (auto simp: closedInv_def onBlur_def onCancel_def)

lemma step_closed_keeps:
  "closedInv pg s \<Longrightarrow>
     settled (step pg s ev) = settled s \<and> BT_PICKED_ELEMENT (step pg s ev) = BT_PICKED_ELEMENT s
     \<and> uncaught (step pg s ev) = uncaught s"
  by (cases ev) (auto simp: closedInv_def onBlur_def onCancel_def)

lemma run_closed_stays:
  "closedInv pg s \<Longrightarrow> closedInv pg (foldl (step pg) s es)"
  by (induction es arbitrary: s) (auto simp: step_closed_stays)

lemma run_closed_keeps:
  "closedInv pg s \<Longrightarrow>
     settled (foldl (step pg) s es) = settled s
     \<and> BT_PICKED_ELEMENT (foldl (step pg) s es) = BT_PICKED_ELEMENT s
     \<and> uncaught (foldl (step pg) s es) = uncaught s"
proof (induction es arbitrary: s)
  case Nil
  then show ?case by simp
next
  case (Cons ev es)
  show ?case
    using Cons.IH [OF step_closed_stays [OF Cons.prems, of ev]] step_closed_keeps [OF Cons.prems, of ev]
    by simp
qed

lemma run_invariant:
  "openInv pg t s \<Longrightarrow>
     (if list_ex (terminal t) es then closedInv pg (foldl (step pg) s es)
      else openInv pg t (foldl (step pg) s es))"
proof (induction es arbitrary: s)
  case Nil
  then show ?case by simp
next
  case (Cons ev es)
  show ?case
  proof (cases "terminal t ev")
    case True
    then show ?thesis
      using run_closed_stays [OF step_open_closes [OF Cons.prems True], of es] by simp
  next
    case False
    then show ?thesis
      using Cons.IH [OF step_open_stays [OF Cons.prems False]] by simp
  qed
qed

lemma step_open_settles:
  "openInv pg t s \<Longrightarrow> terminal t ev \<Longrightarrow>
     settled (step pg s ev) = (case ev of ClickOn n \<Rightarrow> None | _ \<Rightarrow> Some None)
     \<and> BT_PICKED_ELEMENT (step pg s ev) = None
     \<and> uncaught (step pg s ev)
         = (case ev of ClickOn n \<Rightarrow> [''ReferenceError: resolve is not defined''] | _ \<Rightarrow> [])"
  by (cases ev)
     (auto simp: openInv_def onClick_def onTimeout_def onBlur_def onCancel_def resolve_def
        cleanup_def restoreOutline_def Let_def split: option.splits)

lemma run_settled:
  "openInv pg t s \<Longrightarrow>
     settled (foldl (step pg) s es)
       = (case find (terminal t) es of None \<Rightarrow> None | Some (ClickOn n) \<Rightarrow> None | Some ev \<Rightarrow> Some None)
     \<and> BT_PICKED_ELEMENT (foldl (step pg) s es) = None"
proof (induction es arbitrary: s)
  case Nil
  then show ?case by (simp add: openInv_def)
next
  case (Cons ev es)
  show ?case
  proof (cases "terminal t ev")
    case True
    have c: "closedInv pg (step pg s ev)" using step_open_closes [OF Cons.prems True] .
    show ?thesis
      using run_closed_keeps [OF c, of es] step_open_settles [OF Cons.prems True] True
      by (cases ev) auto
  next
    case False
    then show ?thesis
      using Cons.IH [OF step_open_stays [OF Cons.prems False]] by simp
  qed
qed

lemma find_append_Some: "find P xs = Some x \<Longrightarrow> find P (xs @ ys) = Some x"
  by (induction xs) (auto split: if_splits)

lemma find_append_None: "find P xs = None \<Longrightarrow> find P (xs @ ys) = find P ys"
  by (induction xs) (auto split: if_splits)

lemma truthy_default: "truthy (js_or timeoutMs (JNum (Finite 60000)))"
  by (simp add: js_or_def)

lemma runPicker_foldl:
  "runPicker pg t es = foldl (step pg) (arm pg t) (es @ [TimerFires])"
  by (simp add: runPicker_def)

section \<open>Properties of the selector reader\<close>




lemma readName_escape:
  "literal d \<Longrightarrow> \<not> isHexDigit d \<Longrightarrow>
     readName (backslash # d # ds) = map_option (\<lambda>(name, rest). (d # name, rest)) (readName ds)"
  by (simp add: literal_def)





















section \<open>The claims about the selector synthesizer\<close>




text \<open>
  The id need not be the only obstacle. Where two siblings of one type spell their names
  differently the synthesizer counts them apart and writes no \<^verbatim>\<open>:nth-of-type\<close>, while the
  selector matches both.
\<close>

lemma spelling_matters:
  "nearestIdAncestor mixedCaseDocument [0, 0, 1] = Some [0, 0]
   \<and> idUnique mixedCaseDocument [0, 0]
   \<and> \<not> sameSpelling mixedCaseDocument
   \<and> toSelector None mixedCaseDocument [0, 0, 1] = ''#x > a''
   \<and> querySelectorText mixedCaseDocument (toSelector None mixedCaseDocument [0, 0, 1])
       = Returned (Some [0, 0, 0])"
  by code_simp

text \<open>
  Nor does the fallback escaping keep every selector valid: it leaves a leading digit alone,
  and \<^verbatim>\<open>#1a\<close> is no id selector. The query throws although the id is unique.
\<close>

lemma leading_digit_unreadable:
  "nearestIdAncestor digitIdDocument [0, 0, 0] = Some [0, 0]
   \<and> idUnique digitIdDocument [0, 0]
   \<and> sameSpelling digitIdDocument
   \<and> toSelector None digitIdDocument [0, 0, 0] = ''#1a > span''
   \<and> querySelectorText digitIdDocument (toSelector None digitIdDocument [0, 0, 0])
       = Thrown ''SyntaxError''"
  by code_simp



section \<open>Properties of the resolution and the main flow\<close>

lemma collect_rect:
  "collectElementInfo pg h ov = Returned info \<Longrightarrow> i_rect info = roundRect (boundingClientRect pg h)"
  by (auto simp: collectElementInfo_def Let_def split: option.splits dom.splits)

lemma collect_selector:
  "collectElementInfo pg h (Some sel) = Returned info \<Longrightarrow> i_selector info = sel"
  by (auto simp: collectElementInfo_def Let_def split: option.splits dom.splits)

lemma withInfo_Returned:
  "withInfo pg h ov acts0 = (Returned (Some (h', info)), acts) \<Longrightarrow>
     h' = h \<and> acts = acts0 \<and> collectElementInfo pg h ov = Returned info"
  by (auto simp: withInfo_def split: completion.splits)

lemma pickElement_host_Returned:
  "returned (pickElement_host pg s result) = Returned (Some (h, info)) \<Longrightarrow>
     \<exists>ov. collectElementInfo pg h ov = Returned info"
  by (auto simp: pickElement_host_def Let_def split: option.splits prod.splits completion.splits)

lemma pickElement_Returned:
  "returned (pickElement pg t events) = Returned (Some (h, info)) \<Longrightarrow>
     \<exists>ov. collectElementInfo pg h ov = Returned info"
  using pickElement_host_Returned
  by (auto simp: pickElement_def Let_def split: option.splits)

lemma resolveElement_collects:
  assumes "resolveElement br pg rawSelector rawText t events = (Returned (Some (h, info)), acts)"
  shows "\<exists>ov. collectElementInfo pg h ov = Returned info"
proof (cases "present rawSelector")
  case True
  then show ?thesis
    using assms withInfo_Returned
    by (auto simp: resolveElement_def split: completion.splits option.splits) blast
next
  case False
  show ?thesis
  proof (cases "present rawText")
    case True
    then show ?thesis
      using assms False withInfo_Returned
      by (auto simp: resolveElement_def split: completion.splits option.splits prod.splits) blast
  next
    case nt: False
    then show ?thesis
      using assms False pickElement_Returned [of pg t events h info]
      by (simp add: resolveElement_def Let_def)
  qed
qed

lemma escapeQuotes_plain: "doubleQuote \<notin> set query \<Longrightarrow> escapeQuotes query = query"
  by (induction query) (auto simp: escapeQuotes_def)

lemma xpathLiteral_plain:
  assumes "doubleQuote \<notin> set query"
  shows "xpathLiteral (xpathHead @ escapeQuotes query @ xpathTail) = Returned query"
proof -
  have "takeWhile (\<lambda>c. c \<noteq> doubleQuote) (query @ xpathTail) = query"
    using assms by (auto simp: xpathTail_def takeWhile_tail)
  then show ?thesis
    using assms by (simp add: xpathLiteral_def escapeQuotes_plain Let_def)
qed

text \<open>A query with a double quote makes the expression invalid, whatever the page.\<close>

lemma escapeQuotes_append:
  "escapeQuotes (a @ b) = escapeQuotes a @ escapeQuotes b"
  by (simp add: escapeQuotes_def)

lemma xpathLiteral_quoted:
  assumes "doubleQuote \<in> set query"
  shows "xpathLiteral (xpathHead @ escapeQuotes query @ xpathTail)
           = Thrown ''SyntaxError: the string is not a valid XPath expression''"
proof -
  obtain a b where q: "query = a @ doubleQuote # b" and a: "doubleQuote \<notin> set a"
    using split_list_first [OF assms] by blast
  let ?E = "escapeQuotes b @ xpathTail"
  have e: "escapeQuotes query @ xpathTail = (a @ [backslash]) @ doubleQuote # ?E"
    using a by (simp add: q escapeQuotes_append escapeQuotes_plain) (simp add: escapeQuotes_def)
  have nq: "\<forall>c \<in> set (a @ [backslash]). c \<noteq> doubleQuote"
    using a by (auto simp: backslash_def doubleQuote_def)
  have lit: "takeWhile (\<lambda>c. c \<noteq> doubleQuote) ((a @ [backslash]) @ doubleQuote # ?E) = a @ [backslash]"
    using nq by (subst takeWhile_tail) auto
  have "length ?E \<noteq> length '')]''" by (simp add: xpathTail_def)
  then have ne: "doubleQuote # ?E \<noteq> xpathTail"
    by (auto simp: xpathTail_def)
  show ?thesis
    using lit ne by (simp add: xpathLiteral_def e Let_def del: append_assoc)
qed

lemma findByText_quoted:
  "doubleQuote \<in> set query \<Longrightarrow>
     findByText pg query = Thrown ''SyntaxError: the string is not a valid XPath expression''"
  by (simp add: findByText_def page_x_def xpathLiteral_quoted Let_def)

text \<open>
  The main flow normalizes \<^verbatim>\<open>args.timeout\<close> with the fallback 15000, which is also what
  the argument parser fills in when the flag is absent: without \<^verbatim>\<open>--timeout\<close> the picker's
  timer is armed at 15 000 ms, and the 60 000 ms of \<^verbatim>\<open>pickElement\<close> apply to
  \<^verbatim>\<open>--timeout 0\<close> only.
\<close>

lemma command_line_default_timeout:
  "js_or (normalizeNumber rt (JNum (Finite 15000)) (JNum (Finite 15000))) (JNum (Finite 60000))
     = JNum (Finite 15000)"
  by (simp add: normalizeNumber_def js_or_def)

lemma zero_timeout_becomes_default:
  "js_or (normalizeNumber rt (JNum (Finite 0)) (JNum (Finite 15000))) (JNum (Finite 60000))
     = JNum (Finite 60000)"
  by (simp add: normalizeNumber_def js_or_def)

lemma timer_first_settles_null:
  assumes "find (terminal (js_or timeoutMs (JNum (Finite 60000)))) events = Some TimerFires
           \<or> find (terminal (js_or timeoutMs (JNum (Finite 60000)))) events = None"
  shows "settled (runPicker pg (js_or timeoutMs (JNum (Finite 60000))) events) = Some None"
proof -
  let ?t = "js_or timeoutMs (JNum (Finite 60000))"
  have "find (terminal ?t) (events @ [TimerFires]) = Some TimerFires"
    using assms truthy_default [of timeoutMs]
    by (auto simp: find_append_Some find_append_None)
  then show ?thesis
    using run_settled [OF arm_open, of pg ?t "events @ [TimerFires]"]
    by (simp add: runPicker_foldl)
qed

lemma runPicker_closed:
  "closedInv pg (runPicker pg (js_or timeoutMs (JNum (Finite 60000))) events)"
  using run_invariant [OF arm_open, of "js_or timeoutMs (JNum (Finite 60000))" "events @ [TimerFires]" pg]
    truthy_default [of timeoutMs]
  by (simp add: runPicker_foldl)

section \<open>The claim about the connection resolver\<close>

text \<open>
  C9. Connection resolver: if an endpoint is present (explicit flag, else the environment
  variable) it wins outright and host and port are ignored; otherwise host defaults to
  \<^verbatim>\<open>localhost\<close> and port to 9222 whenever the supplied port is unset or non-finite; the
  function is total, performs no I/O and never errors on malformed numeric input.

  The code tests \<^verbatim>\<open>flags.ws || process.env.BROWSER_WS_URL\<close> but then takes
  \<^verbatim>\<open>flags.ws ?? process.env.BROWSER_WS_URL\<close>. With \<^verbatim>\<open>--ws\<close> given without a value the
  flag is the empty string, which is falsy but not nullish: the environment's endpoint
  makes the test succeed, and the empty flag is returned as the endpoint.
\<close>

theorem C9_empty_flag_shadows_environment:
  "resolveBrowserConnection rt [''BROWSER_WS_URL'' \<mapsto> ''ws://127.0.0.1:9222/devtools/browser/abc'']
       \<lparr>ws = JStr [], host = JUndefined, port = JUndefined\<rparr>
     = BrowserWSEndpoint (JStr [])"
  by (simp add: resolveBrowserConnection_def js_or_def js_coalesce_def getenv_def)

text \<open>
  Away from that input the resolver does what the claim says: a truthy flag wins; with no
  flag at all a non-empty environment endpoint wins; with neither, the URL is built from
  the host (flag, else environment, else \<^verbatim>\<open>localhost\<close>) and a port that is always finite,
  and that is 9222 whenever the supplied port, normalized, is not finite.
\<close>

lemma resolve_explicit_endpoint:
  "truthy (ws fl) \<Longrightarrow> resolveBrowserConnection rt env fl = BrowserWSEndpoint (ws fl)"
  by (cases "ws fl") (auto simp: resolveBrowserConnection_def js_or_def js_coalesce_def)

lemma resolve_environment_endpoint:
  "nullish (ws fl) \<Longrightarrow> env ''BROWSER_WS_URL'' = Some url \<Longrightarrow> url \<noteq> [] \<Longrightarrow>
     resolveBrowserConnection rt env fl = BrowserWSEndpoint (JStr url)"
  by (cases "ws fl") (auto simp: resolveBrowserConnection_def js_or_def js_coalesce_def getenv_def)

lemma resolve_host_port:
  assumes "\<not> truthy (ws fl)" and "env ''BROWSER_WS_URL'' = None \<or> env ''BROWSER_WS_URL'' = Some []"
  shows "\<exists>p. isFinite p
           \<and> resolveBrowserConnection rt env fl
               = BrowserURL (''http://''
                   @ toString rt (js_coalesce (host fl) (js_coalesce (getenv env ''BROWSER_HOST'') (JStr ''localhost'')))
                   @ '':'' @ toString rt p)
           \<and> (\<not> isFinite (normalizeNumber rt (js_coalesce (port fl) (getenv env ''BROWSER_PORT'')) JUndefined)
                \<longrightarrow> p = JNum (Finite 9222))"
proof -
  let ?v = "js_coalesce (port fl) (js_coalesce (getenv env ''BROWSER_PORT'') DEFAULT_PORT)"
  let ?p = "normalizeNumber rt ?v DEFAULT_PORT"
  have fin: "isFinite ?p"
    using normalizeNumber_finite [of rt ?v 9222] by (simp add: DEFAULT_PORT_def)
  have cond: "\<not> truthy (js_or (ws fl) (getenv env ''BROWSER_WS_URL''))"
    using assms by (auto simp: js_or_def getenv_def)
  have url: "resolveBrowserConnection rt env fl
               = BrowserURL (''http://''
                   @ toString rt (js_coalesce (host fl) (js_coalesce (getenv env ''BROWSER_HOST'') (JStr ''localhost'')))
                   @ '':'' @ toString rt ?p)"
    using cond by (simp add: resolveBrowserConnection_def Let_def)
  have dflt: "\<not> isFinite (normalizeNumber rt (js_coalesce (port fl) (getenv env ''BROWSER_PORT'')) JUndefined)
                \<longrightarrow> ?p = JNum (Finite 9222)"
    by (cases "port fl"; cases "env ''BROWSER_PORT''")
       (auto simp: normalizeNumber_def js_coalesce_def getenv_def DEFAULT_PORT_def Let_def
          split: jsval.splits jsnum.splits)
  show ?thesis using fin url dflt by blast
qed

section \<open>The claims about the interactive picker\<close>



text \<open>
  C1. Interactive pick, click path: for every picker session in which a click occurs
  before the timer fires, the session is marked resolved exactly once, cleanup runs, the
  clicked node is stashed in the handoff slot, and the in-page evaluation settles with
  that node's basic descriptor and synthesized selector, so that the host returns exactly
  one element descriptor.

  The code marks the session resolved and runs cleanup, and then fails on the unbound
  name \<^verbatim>\<open>resolve\<close> (see \<open>onClick\<close>): whenever a click is the first session-ending event, the
  handoff slot stays empty and the promise is never settled, since cleanup has cleared
  the timer and the other handlers return at the resolved flag. The host's
  \<^verbatim>\<open>pickElement\<close> therefore never returns, whatever happens afterwards. (How long the
  protocol layer waits for an evaluation that is never settled is outside the repository;
  no descriptor is returned either way.)
\<close>

theorem C1_click_never_settles:
  assumes "find (terminal (js_or timeoutMs (JNum (Finite 60000)))) events = Some (ClickOn n)"
  shows "returned (pickElement pg timeoutMs events) = NeverSettles
         \<and> did (pickElement pg timeoutMs events) = []
         \<and> BT_PICKED_ELEMENT (after (pickElement pg timeoutMs events)) = None
         \<and> resolved (after (pickElement pg timeoutMs events))
         \<and> cleanups (after (pickElement pg timeoutMs events)) = 1"
proof -
  let ?t = "js_or timeoutMs (JNum (Finite 60000))"
  have f: "find (terminal ?t) (events @ [TimerFires]) = Some (ClickOn n)"
    using assms by (rule find_append_Some)
  have s: "settled (runPicker pg ?t events) = None"
    using run_settled [OF arm_open, of pg ?t "events @ [TimerFires]"] f
    by (simp add: runPicker_foldl)
  have c: "closedInv pg (runPicker pg ?t events)"
    by (rule runPicker_closed)
  have b: "BT_PICKED_ELEMENT (runPicker pg ?t events) = None"
    using run_settled [OF arm_open, of pg ?t "events @ [TimerFires]"]
    by (simp add: runPicker_foldl)
  show ?thesis
    using s c b by (simp add: pickElement_def Let_def closedInv_def)
qed

theorem C1_click_never_settles_witness:
  "find (terminal (js_or (JNum (Finite 60000)) (JNum (Finite 60000))))
       [Mouseover [0, 0, 0], ClickOn [0, 0, 0], TimerFires] = Some (ClickOn [0, 0, 0])
   \<and> returned (pickElement samplePage (JNum (Finite 60000))
         [Mouseover [0, 0, 0], ClickOn [0, 0, 0], TimerFires]) = NeverSettles
   \<and> BT_PICKED_ELEMENT (after (pickElement samplePage (JNum (Finite 60000))
         [Mouseover [0, 0, 0], ClickOn [0, 0, 0], TimerFires])) = None
   \<and> uncaught (after (pickElement samplePage (JNum (Finite 60000))
         [Mouseover [0, 0, 0], ClickOn [0, 0, 0], TimerFires]))
       = [''ReferenceError: resolve is not defined'']"
proof -
  have h: "find (terminal (js_or (JNum (Finite 60000)) (JNum (Finite 60000))))
       [Mouseover [0, 0, 0], ClickOn [0, 0, 0], TimerFires] = Some (ClickOn [0, 0, 0])"
    by (simp add: js_or_def)
  have u: "uncaught (after (pickElement samplePage (JNum (Finite 60000))
         [Mouseover [0, 0, 0], ClickOn [0, 0, 0], TimerFires]))
       = [''ReferenceError: resolve is not defined'']"
    by code_simp
  show ?thesis
    using C1_click_never_settles [OF h, of samplePage] h u by simp
qed

text \<open>
  C3. Picker timer semantics: the timeout defaults to 60 000 ms; a timeout of 0 (or
  absent) disables the in-page timer entirely; and whenever the timer fires before any
  click, the session times out, the same cleanup runs and the pick resolves to no
  selection, reported as not found.

  The middle part fails: \<^verbatim>\<open>pickElement\<close> hands the page \<^verbatim>\<open>timeoutMs || 60000\<close>, so with a
  timeout of 0 the timer is armed at 60 000 ms and the pick ends when it fires. Only the
  in-page function, handed 0 directly, would arm no timer and wait for ever.
\<close>

theorem C3_counterexample:
  "pendingTimer (arm samplePage (js_or (JNum (Finite 0)) (JNum (Finite 60000)))) = Some (JNum (Finite 60000))
   \<and> returned (pickElement samplePage (JNum (Finite 0)) []) = Returned None
   \<and> settled (foldl (step samplePage) (arm samplePage (JNum (Finite 0))) [TimerFires]) = None"
  by code_simp

text \<open>
  C3, amended. \<^verbatim>\<open>pickElement\<close> replaces a falsy timeout (0, \<^verbatim>\<open>NaN\<close>, absent) by 60 000 ms,
  so the in-page timer is armed for every timeout the host passes; the in-page code leaves
  the timer unarmed exactly when it is handed a falsy timeout, which the host never does.
  Whenever the timer is the first session-ending event (it fires before any click, blur or
  cancel call, or none of these comes at all), the session is cleaned up as on the other
  paths, the pick returns no selection without retrieving the handoff, and the main flow
  reports \<^verbatim>\<open>No element selected.\<close> and exits with status 1.
\<close>

theorem C3_timer:
  "(\<not> truthy timeoutMs \<longrightarrow> js_or timeoutMs (JNum (Finite 60000)) = JNum (Finite 60000))
   \<and> pendingTimer (arm pg (js_or timeoutMs (JNum (Finite 60000))))
       = Some (js_or timeoutMs (JNum (Finite 60000)))
   \<and> (pendingTimer (arm pg t) = None \<longleftrightarrow> \<not> truthy t)
   \<and> (find (terminal (js_or timeoutMs (JNum (Finite 60000)))) events = Some TimerFires
        \<or> find (terminal (js_or timeoutMs (JNum (Finite 60000)))) events = None
      \<longrightarrow> returned (pickElement pg timeoutMs events) = Returned None
          \<and> did (pickElement pg timeoutMs events) = []
          \<and> closedInv pg (after (pickElement pg timeoutMs events))
          \<and> (\<not> present (arg_selector a) \<and> \<not> present (arg_text a)
               \<and> normalizeNumber rt (arg_timeout a) (JNum (Finite 15000)) = timeoutMs
             \<longrightarrow> element_main rt br a pg events = fail pg [] ''No element selected.'' (arg_json a)))"
proof -
  let ?t = "js_or timeoutMs (JNum (Finite 60000))"
  have 1: "\<not> truthy timeoutMs \<longrightarrow> ?t = JNum (Finite 60000)" by (simp add: js_or_def)
  have 2: "pendingTimer (arm pg ?t) = Some ?t"
    using truthy_default [of timeoutMs] by (simp add: arm_def)
  have 3: "pendingTimer (arm pg t) = None \<longleftrightarrow> \<not> truthy t" by (simp add: arm_def)
  have 4: "returned (pickElement pg timeoutMs events) = Returned None
          \<and> did (pickElement pg timeoutMs events) = []
          \<and> closedInv pg (after (pickElement pg timeoutMs events))
          \<and> (\<not> present (arg_selector a) \<and> \<not> present (arg_text a)
               \<and> normalizeNumber rt (arg_timeout a) (JNum (Finite 15000)) = timeoutMs
             \<longrightarrow> element_main rt br a pg events = fail pg [] ''No element selected.'' (arg_json a))"
    if h: "find (terminal ?t) events = Some TimerFires \<or> find (terminal ?t) events = None"
  proof -
    have s: "settled (runPicker pg ?t events) = Some None"
      using timer_first_settles_null [OF h] .
    have p: "pickElement pg timeoutMs events
             = \<lparr>returned = Returned None, did = [], after = runPicker pg ?t events\<rparr>"
      using s by (simp add: pickElement_def Let_def pickElement_host_def)
    show ?thesis
      using p runPicker_closed [of pg timeoutMs events]
      by (auto simp: element_main_def resolveElement_def Let_def notFoundMessage_def)
  qed
  show ?thesis using 1 2 3 4 by blast
qed

theorem C3_timer_witness:
  "\<not> truthy (JNum (Finite 0))
   \<and> js_or (JNum (Finite 0)) (JNum (Finite 60000)) = JNum (Finite 60000)
   \<and> find (terminal (js_or (JNum (Finite 50)) (JNum (Finite 60000)))) [Mouseover [0, 0], TimerFires, ClickOn [0, 0]]
       = Some TimerFires
   \<and> returned (pickElement samplePage (JNum (Finite 50)) [Mouseover [0, 0], TimerFires, ClickOn [0, 0]])
       = Returned None
   \<and> closedInv samplePage (after (pickElement samplePage (JNum (Finite 50)) [Mouseover [0, 0], TimerFires, ClickOn [0, 0]]))"
proof -
  have h0: "\<not> truthy (JNum (Finite 0))" by simp
  have h1: "find (terminal (js_or (JNum (Finite 50)) (JNum (Finite 60000)))) [Mouseover [0, 0], TimerFires, ClickOn [0, 0]]
       = Some TimerFires"
    by (simp add: js_or_def)
  show ?thesis
    using C3_timer [of "JNum (Finite 0)" samplePage JNull "[]"] h0
      C3_timer [of "JNum (Finite 50)" samplePage JNull "[Mouseover [0, 0], TimerFires, ClickOn [0, 0]]"] h1
    by simp
qed



section \<open>The claims about resolution and the main flow\<close>

text \<open>
  C2. For every resolved element whose request carries scroll and/or click intents,
  scroll is applied before click, and both are applied before the descriptor is captured,
  so that the descriptor's rect reflects the element's position after the scroll.

  The order of scroll and click is as claimed, but the descriptor is captured first:
  \<^verbatim>\<open>resolveElement\<close> calls \<^verbatim>\<open>collectElementInfo\<close> before the main flow scrolls or clicks,
  and the output is built from that descriptor. On \<open>samplePage\<close> the element sits at
  \<open>y = 1200.5\<close>; the browser scrolls it to \<open>y = 300\<close>; the output says 1201.
\<close>

theorem C2_counterexample:
  "actions (element_main sampleRuntime sampleBrowser scrollAndClick samplePage [])
     = [ScrollIntoView [0, 0], Click [0, 0], PrintJSON (Success mainInfo),
        Dispose (NodeHandle [0, 0]), Disconnect]
   \<and> rect_y (i_rect mainInfo) = 1201
   \<and> rect_y (roundRect (boundingClientRect
         (finalPage (element_main sampleRuntime sampleBrowser scrollAndClick samplePage [])) [0, 0])) = 300"
  by code_simp

text \<open>
  C2, amended. For every resolved element, the descriptor is the one captured at
  resolution, before any scroll or click: its rect is the rounded position of the element
  in the page as resolution found it. Scroll is applied before click, the click acts on
  the scrolled page, and the descriptor is emitted after both.
\<close>

theorem C2_capture_then_scroll_then_click:
  assumes "resolveElement br pg (arg_selector a) (arg_text a)
             (normalizeNumber rt (arg_timeout a) (JNum (Finite 15000))) events
           = (Returned (Some (h, info)), acts)"
    and "arg_click a \<longrightarrow>
           handle_click br (if arg_scroll a then scrollIntoView br pg h else pg) h = Returned pg2"
  shows "element_main rt br a pg events =
           \<lparr>actions = acts
              @ (if arg_scroll a then [ScrollIntoView h] @ logger_info a ElementScrolled else [])
              @ (if arg_click a then [Click h] @ logger_info a ElementClicked else [])
              @ (if arg_json a then [PrintJSON (Success info)]
                 else logger_info a (ElementFound (i_selector info)) @ [WriteStdout info])
              @ [Dispose (NodeHandle h), Disconnect],
            ending = Completed,
            finalPage = (if arg_click a then pg2
                         else if arg_scroll a then scrollIntoView br pg h else pg)\<rparr>
         \<and> i_rect info = roundRect (boundingClientRect pg h)"
proof -
  obtain ov where "collectElementInfo pg h ov = Returned info"
    using resolveElement_collects [OF assms(1)] by blast
  then have "i_rect info = roundRect (boundingClientRect pg h)" by (rule collect_rect)
  moreover have "element_main rt br a pg events =
           \<lparr>actions = acts
              @ (if arg_scroll a then [ScrollIntoView h] @ logger_info a ElementScrolled else [])
              @ (if arg_click a then [Click h] @ logger_info a ElementClicked else [])
              @ (if arg_json a then [PrintJSON (Success info)]
                 else logger_info a (ElementFound (i_selector info)) @ [WriteStdout info])
              @ [Dispose (NodeHandle h), Disconnect],
            ending = Completed,
            finalPage = (if arg_click a then pg2
                         else if arg_scroll a then scrollIntoView br pg h else pg)\<rparr>"
    using assms
    by (cases "arg_scroll a"; cases "arg_click a"; cases "arg_json a")
       (simp_all add: element_main_def Let_def emit_def)
  ultimately show ?thesis by simp
qed

theorem C2_capture_then_scroll_then_click_witness:
  "resolveElement sampleBrowser samplePage (arg_selector scrollAndClick) (arg_text scrollAndClick)
       (normalizeNumber sampleRuntime (arg_timeout scrollAndClick) (JNum (Finite 15000))) []
     = (Returned (Some ([0, 0], mainInfo)), [])
   \<and> actions (element_main sampleRuntime sampleBrowser scrollAndClick samplePage [])
       = [ScrollIntoView [0, 0], Click [0, 0], PrintJSON (Success mainInfo),
          Dispose (NodeHandle [0, 0]), Disconnect]
   \<and> i_rect mainInfo = roundRect (boundingClientRect samplePage [0, 0])"
proof -
  have h1: "resolveElement sampleBrowser samplePage (arg_selector scrollAndClick) (arg_text scrollAndClick)
       (normalizeNumber sampleRuntime (arg_timeout scrollAndClick) (JNum (Finite 15000))) []
     = (Returned (Some ([0, 0], mainInfo)), [])"
    by code_simp
  have h2: "arg_click scrollAndClick \<longrightarrow> handle_click sampleBrowser
       (if arg_scroll scrollAndClick then scrollIntoView sampleBrowser samplePage [0, 0] else samplePage) [0, 0]
     = Returned (scrollIntoView sampleBrowser samplePage [0, 0])"
    by (simp add: sampleBrowser_def scrollAndClick_def)
  have flags: "arg_scroll scrollAndClick" "arg_click scrollAndClick" "arg_json scrollAndClick"
    by (simp_all add: scrollAndClick_def)
  show ?thesis
    using C2_capture_then_scroll_then_click [OF h1 h2] h1 flags by (simp add: logger_info_def)
qed

text \<open>
  C7. Text-query resolution: the resolver performs a case-sensitive substring match over
  the normalized, whitespace-collapsed text content of every element; it returns the
  first match in document order and disposes all other candidate handles without emitting
  them; with zero matches it returns not found.

  What the XPath expression tests is not an element's text content but its first text-node
  child. The paragraph \<^verbatim>\<open><p>Click <b>here</b> to Submit</p>\<close> has the normalized text
  \<^verbatim>\<open>Click here to Submit\<close>, which contains the query \<^verbatim>\<open>Submit\<close>; its first text node is
  \<^verbatim>\<open>Click \<close>, and the resolver reports that nothing was found.
\<close>

theorem C7_counterexample:
  "nodeAt (document textPage) [0, 0] = Some splitParagraph
   \<and> normalizeSpace (textContent splitParagraph) = ''Click here to Submit''
   \<and> containsString (normalizeSpace (textContent splitParagraph)) ''Submit''
   \<and> findByText textPage ''Submit'' = Returned (None, [])
   \<and> actions (element_main sampleRuntime sampleBrowser submitQuery textPage [])
       = [PrintJSON (Failure ''No element found containing text: Submit'')]
   \<and> ending (element_main sampleRuntime sampleBrowser submitQuery textPage []) = Exit 1"
  by code_simp

text \<open>
  C7, amended. For every text query without a double quote, the resolver matches the
  query, case-sensitively and as a substring, against the whitespace-normalized first
  text-node child of every element (\<open>textMatches\<close>); it returns the first match in document
  order and disposes the handles of all the others, which are never emitted; with zero
  matches it returns no element, and the main flow reports
  \<^verbatim>\<open>No element found containing text: <query>\<close> and exits with status 1. (A query with a
  double quote is left out: the backslash the code puts before it is no escape in XPath,
  and the expression is invalid, see \<open>findByText_quoted\<close>.)
\<close>

theorem C7_text_query:
  assumes "doubleQuote \<notin> set query"
  shows "findByText pg query =
           Returned (case textMatches (document pg) query of
                       [] \<Rightarrow> (None, [])
                     | first # rest \<Rightarrow> (Some first, map (\<lambda>h. Dispose (NodeHandle h)) rest))
         \<and> (query \<noteq> [] \<and> \<not> present rawSelector \<longrightarrow>
              resolveElement br pg rawSelector (Some query) t events =
                (case textMatches (document pg) query of
                   [] \<Rightarrow> (Returned None, [])
                 | first # rest \<Rightarrow> withInfo pg first None (map (\<lambda>h. Dispose (NodeHandle h)) rest)))
         \<and> (query \<noteq> [] \<and> \<not> present (arg_selector a) \<and> arg_text a = Some query
              \<and> textMatches (document pg) query = [] \<longrightarrow>
              element_main rt br a pg events
                = fail pg [] (''No element found containing text: '' @ query) (arg_json a))"
proof -
  have f: "findByText pg query =
           Returned (case textMatches (document pg) query of
                       [] \<Rightarrow> (None, [])
                     | first # rest \<Rightarrow> (Some first, map (\<lambda>h. Dispose (NodeHandle h)) rest))"
    using xpathLiteral_plain [OF assms]
    by (simp add: findByText_def page_x_def textMatches_def Let_def split: list.splits)
  have r: "resolveElement br pg rawSelector (Some query) t events =
                (case textMatches (document pg) query of
                   [] \<Rightarrow> (Returned None, [])
                 | first # rest \<Rightarrow> withInfo pg first None (map (\<lambda>h. Dispose (NodeHandle h)) rest))"
    if "query \<noteq> []" "\<not> present rawSelector" for rawSelector t events
    using that f by (simp add: resolveElement_def present_def stringOf_def split: list.splits)
  have m: "element_main rt br a pg events
                = fail pg [] (''No element found containing text: '' @ query) (arg_json a)"
    if "query \<noteq> []" "\<not> present (arg_selector a)" "arg_text a = Some query"
       "textMatches (document pg) query = []"
  proof -
    have p: "present (arg_text a)" using that(1,3) by (simp add: present_def)
    have "resolveElement br pg (arg_selector a) (arg_text a)
            (normalizeNumber rt (arg_timeout a) (JNum (Finite 15000))) events = (Returned None, [])"
      using r [OF that(1,2)] that(3,4) by simp
    then show ?thesis
      using p that(2,3) by (simp add: element_main_def Let_def notFoundMessage_def stringOf_def)
  qed
  show ?thesis using f r m by blast
qed

theorem C7_text_query_witness:
  "doubleQuote \<notin> set ''here''
   \<and> findByText textPage ''here'' = Returned (Some [0, 0, 0], [])
   \<and> textMatches (document samplePage) ''hi'' = [[0, 0]]
   \<and> findByText samplePage ''hi'' = Returned (Some [0, 0], [])"
proof -
  have h1: "doubleQuote \<notin> set ''here''" by (simp add: doubleQuote_def)
  have h2: "doubleQuote \<notin> set ''hi''" by (simp add: doubleQuote_def)
  have m1: "textMatches (document textPage) ''here'' = [[0, 0, 0]]" by code_simp
  have m2: "textMatches (document samplePage) ''hi'' = [[0, 0]]" by code_simp
  show ?thesis
    using C7_text_query [OF h1, of textPage] C7_text_query [OF h2, of samplePage] h1 m1 m2
    by simp
qed

text \<open>
  C8. Direct-selector resolution: for every request carrying a selector, the returned
  descriptor's selector field echoes the input selector verbatim (synthesis is skipped);
  and when the CSS query matches zero elements the invocation fails with the
  machine-readable output \<^verbatim>\<open>{ ok: false, error: "Selector not found: <selector>" }\<close> and
  exit code 1 (without \<^verbatim>\<open>--json\<close> the same message goes to the error stream as a line of
  text).
\<close>

theorem C8_direct_selector:
  assumes "sel \<noteq> []"
  shows "(resolveElement br pg (Some sel) rawText t events = (Returned (Some (h, info)), acts)
            \<longrightarrow> i_selector info = sel \<and> page_query br pg sel = Returned (Some h))
         \<and> (page_query br pg sel = Returned None \<and> arg_selector a = Some sel \<longrightarrow>
              element_main rt br a pg events =
                \<lparr>actions = (if arg_json a then [PrintJSON (Failure (''Selector not found: '' @ sel))]
                            else [WriteStderr (''Selector not found: '' @ sel @ [CHR 0x0A])]),
                 ending = Exit 1, finalPage = pg\<rparr>)"
proof -
  have 1: "i_selector info = sel \<and> page_query br pg sel = Returned (Some h)"
    if "resolveElement br pg (Some sel) rawText t events = (Returned (Some (h, info)), acts)"
  proof (cases "page_query br pg sel")
    case (Returned found)
    show ?thesis
    proof (cases found)
      case None
      then show ?thesis
        using that assms Returned by (simp add: resolveElement_def present_def stringOf_def)
    next
      case (Some h')
      then have w: "withInfo pg h' (Some sel) [] = (Returned (Some (h, info)), acts)"
        using that assms Returned by (simp add: resolveElement_def present_def stringOf_def)
      then show ?thesis
        using withInfo_Returned [OF w] collect_selector [of pg h' sel info] Returned Some by simp
    qed
  next
    case (Thrown msg)
    then show ?thesis
      using that assms by (simp add: resolveElement_def present_def stringOf_def)
  next
    case NeverSettles
    then show ?thesis
      using that assms by (simp add: resolveElement_def present_def stringOf_def)
  qed
  have 2: "element_main rt br a pg events =
                \<lparr>actions = (if arg_json a then [PrintJSON (Failure (''Selector not found: '' @ sel))]
                            else [WriteStderr (''Selector not found: '' @ sel @ [CHR 0x0A])]),
                 ending = Exit 1, finalPage = pg\<rparr>"
    if "page_query br pg sel = Returned None" "arg_selector a = Some sel"
    using that assms
    by (simp add: element_main_def resolveElement_def Let_def notFoundMessage_def fail_def
        present_def stringOf_def)
  show ?thesis using 1 2 by blast
qed

theorem C8_direct_selector_witness:
  "resolveElement sampleBrowser samplePage (Some ''#main'') None (JNum (Finite 15000)) []
     = (Returned (Some ([0, 0], mainInfo)), [])
   \<and> i_selector mainInfo = ''#main''
   \<and> page_query sampleBrowser samplePage ''#nothing'' = Returned None
   \<and> actions (element_main sampleRuntime sampleBrowser missingSelector samplePage [])
       = [PrintJSON (Failure ''Selector not found: #nothing'')]
   \<and> ending (element_main sampleRuntime sampleBrowser missingSelector samplePage []) = Exit 1"
proof -
  have n1: "''#main'' \<noteq> []" and n2: "''#nothing'' \<noteq> []" by simp_all
  have h1: "resolveElement sampleBrowser samplePage (Some ''#main'') None (JNum (Finite 15000)) []
     = (Returned (Some ([0, 0], mainInfo)), [])"
    by code_simp
  have h2: "page_query sampleBrowser samplePage ''#nothing'' = Returned None" by code_simp
  have h3: "arg_selector missingSelector = Some ''#nothing''" "arg_json missingSelector"
    by (simp_all add: missingSelector_def)
  show ?thesis
    using C8_direct_selector [OF n1, where br = sampleBrowser and pg = samplePage and rawText = None
          and t = "JNum (Finite 15000)" and events = "[]" and h = "[0, 0]" and info = mainInfo
          and acts = "[]"]
      C8_direct_selector [OF n2, where br = sampleBrowser and pg = samplePage and a = missingSelector
          and rt = sampleRuntime and events = "[]"]
      h1 h2 h3
    by simp
qed

end
